theory Spec2Isabelle
  imports Complex_Main "HOL-Library.Word"
begin

unbundle bit_operations_syntax

section \<open>Register map and flag bits (Adafruit\_MAX31856.h)\<close>

definition MAX31856_CR0_REG :: "8 word" where [simp]: "MAX31856_CR0_REG = 0x00"
definition MAX31856_CR0_AUTOCONVERT :: "8 word" where [simp]: "MAX31856_CR0_AUTOCONVERT = 0x80"
definition MAX31856_CR0_1SHOT :: "8 word" where [simp]: "MAX31856_CR0_1SHOT = 0x40"
definition MAX31856_CR0_OCFAULT0 :: "8 word" where [simp]: "MAX31856_CR0_OCFAULT0 = 0x10"

definition MAX31856_CR1_REG :: "8 word" where [simp]: "MAX31856_CR1_REG = 0x01"
definition MAX31856_MASK_REG :: "8 word" where [simp]: "MAX31856_MASK_REG = 0x02"
definition MAX31856_CJHF_REG :: "8 word" where [simp]: "MAX31856_CJHF_REG = 0x03"
definition MAX31856_CJLF_REG :: "8 word" where [simp]: "MAX31856_CJLF_REG = 0x04"
definition MAX31856_LTHFTH_REG :: "8 word" where [simp]: "MAX31856_LTHFTH_REG = 0x05"
definition MAX31856_LTHFTL_REG :: "8 word" where [simp]: "MAX31856_LTHFTL_REG = 0x06"
definition MAX31856_LTLFTH_REG :: "8 word" where [simp]: "MAX31856_LTLFTH_REG = 0x07"
definition MAX31856_LTLFTL_REG :: "8 word" where [simp]: "MAX31856_LTLFTL_REG = 0x08"
definition MAX31856_CJTO_REG :: "8 word" where [simp]: "MAX31856_CJTO_REG = 0x09"
definition MAX31856_CJTH_REG :: "8 word" where [simp]: "MAX31856_CJTH_REG = 0x0A"
definition MAX31856_CJTL_REG :: "8 word" where [simp]: "MAX31856_CJTL_REG = 0x0B"
definition MAX31856_LTCBH_REG :: "8 word" where [simp]: "MAX31856_LTCBH_REG = 0x0C"
definition MAX31856_LTCBM_REG :: "8 word" where [simp]: "MAX31856_LTCBM_REG = 0x0D"
definition MAX31856_LTCBL_REG :: "8 word" where [simp]: "MAX31856_LTCBL_REG = 0x0E"
definition MAX31856_SR_REG :: "8 word" where [simp]: "MAX31856_SR_REG = 0x0F"

datatype max31856_noise_filter_t = MAX31856_NOISE_FILTER_50HZ | MAX31856_NOISE_FILTER_60HZ

text \<open>
  \<open>max31856_thermocoupletype_t\<close> is an unscoped C++ enumeration whose enumerators are
  4-bit codes. \<open>getThermocoupleType\<close> casts any low nibble of the register to it, so the
  type holds codes that are no enumerator; it is modelled by the code itself. The cast
  \<open>(uint8_t)type\<close> of \<open>setThermocoupleType\<close> is the identity on this representation.
\<close>

type_synonym max31856_thermocoupletype_t = "8 word"

definition MAX31856_TCTYPE_B :: max31856_thermocoupletype_t where [simp]: "MAX31856_TCTYPE_B = 0b0000"
definition MAX31856_TCTYPE_E :: max31856_thermocoupletype_t where [simp]: "MAX31856_TCTYPE_E = 0b0001"
definition MAX31856_TCTYPE_J :: max31856_thermocoupletype_t where [simp]: "MAX31856_TCTYPE_J = 0b0010"
definition MAX31856_TCTYPE_K :: max31856_thermocoupletype_t where [simp]: "MAX31856_TCTYPE_K = 0b0011"
definition MAX31856_TCTYPE_N :: max31856_thermocoupletype_t where [simp]: "MAX31856_TCTYPE_N = 0b0100"
definition MAX31856_TCTYPE_R :: max31856_thermocoupletype_t where [simp]: "MAX31856_TCTYPE_R = 0b0101"
definition MAX31856_TCTYPE_S :: max31856_thermocoupletype_t where [simp]: "MAX31856_TCTYPE_S = 0b0110"
definition MAX31856_TCTYPE_T :: max31856_thermocoupletype_t where [simp]: "MAX31856_TCTYPE_T = 0b0111"
definition MAX31856_VMODE_G8 :: max31856_thermocoupletype_t where [simp]: "MAX31856_VMODE_G8 = 0b1000"
definition MAX31856_VMODE_G32 :: max31856_thermocoupletype_t where [simp]: "MAX31856_VMODE_G32 = 0b1100"

definition tctype_enumerators :: "max31856_thermocoupletype_t list" where
  "tctype_enumerators =
     [MAX31856_TCTYPE_B, MAX31856_TCTYPE_E, MAX31856_TCTYPE_J, MAX31856_TCTYPE_K,
      MAX31856_TCTYPE_N, MAX31856_TCTYPE_R, MAX31856_TCTYPE_S, MAX31856_TCTYPE_T,
      MAX31856_VMODE_G8, MAX31856_VMODE_G32]"

datatype max31856_conversion_mode_t =
  MAX31856_ONESHOT | MAX31856_ONESHOT_NOWAIT | MAX31856_CONTINUOUS

section \<open>The driver object and its environment\<close>

text \<open>
  A C++ \<open>float\<close> result is either the not-a-number sentinel or a number. Every number
  the two temperature reads produce is an integer below \<open>2 ^ 24\<close> in magnitude divided
  by a power of two, which \<open>double\<close> and \<open>float\<close> represent exactly, so the number is
  modelled by the real it denotes.
\<close>

datatype float_t = NAN | Finite real

text \<open>
  What the driver does to the outside world, in order: the two calls it makes on
  \<open>Adafruit_SPIDevice\<close> with the bytes it sends (and, for a read, the number of bytes it
  asks for), and the calls of \<open>delay\<close>.
\<close>

datatype event =
  Write "8 word list"
  | WriteThenRead "8 word list" nat
  | Delay nat

text \<open>
  The state is the driver object (\<open>initialized\<close>, \<open>conversionMode\<close>) together with what
  it talks to. The SPI device and the chip behind it are not code of the driver; they are
  modelled as follows.
  \<^item> \<open>spi_begin_ok\<close> is the answer \<open>spi_dev.begin()\<close> gives.
  \<^item> \<open>regs\<close> is the chip's register file. A write transaction stores its data byte at
    the register the address byte names, a read transaction returns consecutive
    registers (the chip auto-increments the address).
  \<^item> A write to the configuration register 0 with the one-shot bit set starts a
    conversion. \<open>conv_time\<close> is how many milliseconds the chip needs for it
    (\<open>None\<close>: the chip never finishes), \<open>conv_left\<close> how many are left of the one
    in progress. When it finishes the chip clears the one-shot bit by itself.
  \<^item> \<open>clock\<close> is what \<open>millis()\<close> returns, a 32-bit counter of milliseconds. Only
    \<open>delay\<close> advances it; a bus transaction takes no time.
  \<^item> \<open>trace\<close> records every event with the conversion mode stored in the driver at
    that moment.
\<close>

record max31856 =
  initialized :: bool
  conversionMode :: max31856_conversion_mode_t
  spi_begin_ok :: bool
  regs :: "8 word \<Rightarrow> 8 word"
  conv_time :: "nat option"
  conv_left :: "nat option"
  clock :: "32 word"
  trace :: "(max31856_conversion_mode_t \<times> event) list"

definition emit :: "event \<Rightarrow> max31856 \<Rightarrow> max31856" where
  "emit e s = s\<lparr>trace := trace s @ [(conversionMode s, e)]\<rparr>"

subsection \<open>Arduino and Adafruit\_SPIDevice primitives\<close>

text \<open>
  Modelled from the spec: the Arduino timing primitives \<open>millis()\<close> and \<open>delay()\<close> and
  the chip itself are outside the repository. \<open>delay\<close> blocks for the given number of
  milliseconds; meanwhile the chip works on the conversion in progress and, when it is
  complete, clears the ONE\_SHOT flag autonomously.
\<close>

definition millis :: "max31856 \<Rightarrow> 32 word" where
  "millis s = clock s"

definition chip_elapse :: "nat \<Rightarrow> max31856 \<Rightarrow> max31856" where
  "chip_elapse ms s =
     (case conv_left s of
        None \<Rightarrow> s
      | Some r \<Rightarrow>
          if r \<le> ms
          then s\<lparr>regs := (regs s)(0x00 := regs s 0x00 AND NOT 0x40), conv_left := None\<rparr>
          else s\<lparr>conv_left := Some (r - ms)\<rparr>)"

definition delay :: "nat \<Rightarrow> max31856 \<Rightarrow> max31856" where
  "delay ms s = chip_elapse ms ((emit (Delay ms) s)\<lparr>clock := clock s + of_nat ms\<rparr>)"

text \<open>
  Modelled from the spec: the chip's side of a register access. Consecutive bytes of one
  transaction go to or come from consecutive registers, and a conversion begins once a
  write has set the ONE\_SHOT flag of the main configuration register.
\<close>

fun chip_store :: "8 word \<Rightarrow> 8 word list \<Rightarrow> max31856 \<Rightarrow> max31856" where
  "chip_store a [] s = s"
| "chip_store a (d # ds) s =
     chip_store (a + 1) ds
       (s\<lparr>regs := (regs s)(a := d),
          conv_left := (if a = 0x00 \<and> bit d 6 then conv_time s else conv_left s)\<rparr>)"

definition chip_fetch :: "8 word \<Rightarrow> nat \<Rightarrow> max31856 \<Rightarrow> 8 word list" where
  "chip_fetch a n s = map (\<lambda>i. regs s (a + of_nat i)) [0..<n]"

text \<open>
  Modelled from the spec: \<open>Adafruit_SPIDevice::write(buffer, len)\<close>, which is outside
  the repository, is one framed transaction. The chip takes the first byte as the
  address; with bit 7 set it is a write access and the following bytes are stored from
  the register of the low seven address bits on.
\<close>

definition spi_write :: "8 word list \<Rightarrow> max31856 \<Rightarrow> max31856" where
  "spi_write buffer s =
     (case buffer of
        [] \<Rightarrow> emit (Write buffer) s
      | a # ds \<Rightarrow>
          if bit a 7 then chip_store (a AND 0x7F) ds (emit (Write buffer) s)
          else emit (Write buffer) s)"

text \<open>
  Modelled from the spec: \<open>Adafruit_SPIDevice::write_then_read(write_buffer, write_len,
  read_buffer, read_len)\<close>, which is outside the repository, is one framed transaction.
  With bit 7 of the address byte clear it is a read access and the chip sends consecutive
  registers; otherwise the chip sends nothing and the bytes read are zero (the driver
  never does this, see \<open>readRegisterN\<close>).
\<close>

definition spi_write_then_read ::
  "8 word list \<Rightarrow> nat \<Rightarrow> max31856 \<Rightarrow> 8 word list \<times> max31856" where
  "spi_write_then_read write_buffer n s =
     (case write_buffer of
        [] \<Rightarrow> (replicate n 0, emit (WriteThenRead write_buffer n) s)
      | a # _ \<Rightarrow>
          if bit a 7 then (replicate n 0, emit (WriteThenRead write_buffer n) s)
          else (chip_fetch a n s, emit (WriteThenRead write_buffer n) s))"

subsection \<open>Register access (Adafruit\_MAX31856.cpp, lines 298 to 342)\<close>

definition readRegisterN :: "8 word \<Rightarrow> nat \<Rightarrow> max31856 \<Rightarrow> 8 word list \<times> max31856" where
  "readRegisterN addr n s = spi_write_then_read [addr AND 0x7F] n s"

definition writeRegister8 :: "8 word \<Rightarrow> 8 word \<Rightarrow> max31856 \<Rightarrow> max31856" where
  "writeRegister8 addr data s = spi_write [addr OR 0x80, data] s"

text \<open>
  The callers' buffers start zeroed (\<open>uint8_t ret = 0\<close>, \<open>buffer[2] = {0, 0}\<close>), so a
  byte the transfer did not fill reads as zero.
\<close>

definition byte_at :: "8 word list \<Rightarrow> nat \<Rightarrow> 8 word" where
  "byte_at buffer i = (if i < length buffer then buffer ! i else 0)"

definition readRegister8 :: "8 word \<Rightarrow> max31856 \<Rightarrow> 8 word \<times> max31856" where
  "readRegister8 addr s =
     (case readRegisterN addr 1 s of (buffer, s') \<Rightarrow> (byte_at buffer 0, s'))"

definition readRegister16 :: "8 word \<Rightarrow> max31856 \<Rightarrow> 16 word \<times> max31856" where
  "readRegister16 addr s =
     (case readRegisterN addr 2 s of
        (buffer, s') \<Rightarrow>
          (let ret = ucast (byte_at buffer 0);
               ret = push_bit 8 ret;
               ret = ret OR ucast (byte_at buffer 1)
           in (ret, s')))"

definition readRegister24 :: "8 word \<Rightarrow> max31856 \<Rightarrow> 32 word \<times> max31856" where
  "readRegister24 addr s =
     (case readRegisterN addr 3 s of
        (buffer, s') \<Rightarrow>
          (let ret = ucast (byte_at buffer 0);
               ret = push_bit 8 ret;
               ret = ret OR ucast (byte_at buffer 1);
               ret = push_bit 8 ret;
               ret = ret OR ucast (byte_at buffer 2)
           in (ret, s')))"

subsection \<open>Public operations (Adafruit\_MAX31856.cpp, lines 78 to 294)\<close>

definition setThermocoupleType :: "max31856_thermocoupletype_t \<Rightarrow> max31856 \<Rightarrow> max31856" where
  "setThermocoupleType type s =
     (case readRegister8 MAX31856_CR1_REG s of
        (t, s1) \<Rightarrow>
          (let t = t AND 0xF0;
               t = t OR (type AND 0x0F)
           in writeRegister8 MAX31856_CR1_REG t s1))"

definition getThermocoupleType :: "max31856 \<Rightarrow> max31856_thermocoupletype_t \<times> max31856" where
  "getThermocoupleType s =
     (case readRegister8 MAX31856_CR1_REG s of (t, s1) \<Rightarrow> (t AND 0x0F, s1))"

definition setConversionMode :: "max31856_conversion_mode_t \<Rightarrow> max31856 \<Rightarrow> max31856" where
  "setConversionMode mode s =
     (let s0 = s\<lparr>conversionMode := mode\<rparr> in
      case readRegister8 MAX31856_CR0_REG s0 of
        (t, s1) \<Rightarrow>
          (let t = (if conversionMode s1 = MAX31856_CONTINUOUS
                    then (t OR MAX31856_CR0_AUTOCONVERT) AND NOT MAX31856_CR0_1SHOT
                    else (t AND NOT MAX31856_CR0_AUTOCONVERT) OR MAX31856_CR0_1SHOT)
           in writeRegister8 MAX31856_CR0_REG t s1))"

definition getConversionMode :: "max31856 \<Rightarrow> max31856_conversion_mode_t" where
  "getConversionMode s = conversionMode s"

text \<open>
  \<open>Adafruit_MAX31856::begin\<close>; the name \<open>begin\<close> is a keyword of Isabelle, hence
  \<open>begin_max\<close>.
\<close>

definition begin_max :: "max31856 \<Rightarrow> bool \<times> max31856" where
  "begin_max s =
     (let s0 = s\<lparr>initialized := spi_begin_ok s\<rparr> in
      if \<not> initialized s0 then (False, s0)
      else
        (let s1 = writeRegister8 MAX31856_MASK_REG 0x0 s0;
             s2 = writeRegister8 MAX31856_CR0_REG MAX31856_CR0_OCFAULT0 s1;
             s3 = writeRegister8 MAX31856_CJTO_REG 0x0 s2;
             s4 = setThermocoupleType MAX31856_TCTYPE_K s3;
             s5 = setConversionMode MAX31856_ONESHOT s4
         in (True, s5)))"

definition readFault :: "max31856 \<Rightarrow> 8 word \<times> max31856" where
  "readFault s = readRegister8 MAX31856_SR_REG s"

definition setColdJunctionFaultThreshholds :: "8 word \<Rightarrow> 8 word \<Rightarrow> max31856 \<Rightarrow> max31856" where
  "setColdJunctionFaultThreshholds low high s =
     writeRegister8 MAX31856_CJHF_REG high (writeRegister8 MAX31856_CJLF_REG low s)"

definition setNoiseFilter :: "max31856_noise_filter_t \<Rightarrow> max31856 \<Rightarrow> max31856" where
  "setNoiseFilter noiseFilter s =
     (case readRegister8 MAX31856_CR0_REG s of
        (t, s1) \<Rightarrow>
          (let t = (if noiseFilter = MAX31856_NOISE_FILTER_50HZ then t OR 0x01 else t AND 0xfe)
           in writeRegister8 MAX31856_CR0_REG t s1))"

definition triggerOneShot :: "max31856 \<Rightarrow> max31856" where
  "triggerOneShot s =
     (if conversionMode s = MAX31856_CONTINUOUS then s
      else
        (case readRegister8 MAX31856_CR0_REG s of
           (t, s1) \<Rightarrow>
             (let t = t AND NOT MAX31856_CR0_AUTOCONVERT;
                  t = t OR MAX31856_CR0_1SHOT
              in writeRegister8 MAX31856_CR0_REG t s1)))"

definition conversionComplete :: "max31856 \<Rightarrow> bool \<times> max31856" where
  "conversionComplete s =
     (if conversionMode s = MAX31856_CONTINUOUS then (True, s)
      else
        (case readRegister8 MAX31856_CR0_REG s of
           (t, s1) \<Rightarrow> (\<not> (t AND MAX31856_CR0_1SHOT \<noteq> 0), s1)))"

text \<open>
  \<open>readRegister16\<close> returns a \<open>uint16_t\<close>; in \<open>readRegister16(...) / 256.0\<close> it is
  converted to \<open>double\<close> with its unsigned value.
\<close>

definition readCJTemperature :: "max31856 \<Rightarrow> float_t \<times> max31856" where
  "readCJTemperature s =
     (case readRegister16 MAX31856_CJTH_REG s of
        (r, s1) \<Rightarrow> (Finite (real (unat r) / 256.0), s1))"

text \<open>
  The polling loop of \<open>readThermocoupleTemperature\<close>:
  \<^verbatim>\<open>while (!conversionComplete()) { if (millis() - start > 250) return NAN; delay(10); }\<close>
  The result is \<open>True\<close> when the loop ends because the conversion is complete and
  \<open>False\<close> when it leaves through \<open>return NAN\<close>. \<open>millis() - start\<close> is unsigned
  32-bit arithmetic.
\<close>

function wait_conversion :: "32 word \<Rightarrow> max31856 \<Rightarrow> bool \<times> max31856" where
  "wait_conversion start s =
     (case conversionComplete s of
        (ready, s1) \<Rightarrow>
          if ready then (True, s1)
          else if millis s1 - start > 250 then (False, s1)
          else wait_conversion start (delay 10 s1))"
  by pat_completeness auto

text \<open>
  \<open>temp24\<close> is an \<open>int32_t\<close>: \<open>>>= 5\<close> is the arithmetic shift, and the product with
  the \<open>double\<close> constant \<open>0.0078125\<close> takes its signed value.
\<close>

definition readThermocoupleTemperature :: "max31856 \<Rightarrow> float_t \<times> max31856" where
  "readThermocoupleTemperature s =
     (case (if conversionMode s = MAX31856_ONESHOT
            then (let s1 = triggerOneShot s;
                      start = millis s1
                  in wait_conversion start s1)
            else (True, s)) of
        (False, s2) \<Rightarrow> (NAN, s2)
      | (True, s2) \<Rightarrow>
          (case readRegister24 MAX31856_LTCBH_REG s2 of
             (temp24, s3) \<Rightarrow>
               (let temp24 = (if temp24 AND 0x800000 \<noteq> 0 then temp24 OR 0xFF000000 else temp24);
                    temp24 = signed_drop_bit 5 temp24
                in (Finite (real_of_int (sint temp24) * 0.0078125), s3))))"

text \<open>
  \<open>setTempFaultThreshholds\<close> takes two \<open>float\<close>s. A finite \<open>float\<close> is a real number
  and its product with 16 is exact, so the arguments are modelled as reals. The
  assignment \<open>low = flow\<close> converts to \<open>int16_t\<close> by discarding the fraction (towards
  zero); where the result does not fit 16 bits C++ defines nothing, and the model wraps.
  In \<open>high >> 8\<close> the \<open>int16_t\<close> is promoted to \<open>int\<close> and shifted arithmetically;
  passing the result as the \<open>uint8_t\<close> parameter keeps its low eight bits.
\<close>

definition truncate_toward_zero :: "real \<Rightarrow> int" where
  "truncate_toward_zero x = (if 0 \<le> x then \<lfloor>x\<rfloor> else \<lceil>x\<rceil>)"

definition float_to_int16 :: "real \<Rightarrow> 16 word" where
  "float_to_int16 x = word_of_int (truncate_toward_zero x)"

definition setTempFaultThreshholds :: "real \<Rightarrow> real \<Rightarrow> max31856 \<Rightarrow> max31856" where
  "setTempFaultThreshholds flow fhigh s =
     (let flow = flow * 16;
          low = float_to_int16 flow;
          fhigh = fhigh * 16;
          high = float_to_int16 fhigh;
          s1 = writeRegister8 MAX31856_LTHFTH_REG (word_of_int (drop_bit 8 (sint high))) s;
          s2 = writeRegister8 MAX31856_LTHFTL_REG (word_of_int (sint high)) s1;
          s3 = writeRegister8 MAX31856_LTLFTH_REG (word_of_int (drop_bit 8 (sint low))) s2
      in writeRegister8 MAX31856_LTLFTL_REG (word_of_int (sint low)) s3)"

subsection \<open>Sequences of driver operations\<close>

text \<open>
  The public operations as a datatype, with \<open>Wait\<close> for the caller letting time pass
  between two calls (the examples do so with \<open>delay\<close>), and \<open>run\<close> for a program that
  calls them one after the other.
\<close>

datatype operation =
  Begin
  | SetConversionMode max31856_conversion_mode_t
  | GetConversionMode
  | SetThermocoupleType max31856_thermocoupletype_t
  | GetThermocoupleType
  | ReadFault
  | TriggerOneShot
  | ConversionComplete
  | ReadCJTemperature
  | ReadThermocoupleTemperature
  | SetTempFaultThreshholds real real
  | SetColdJunctionFaultThreshholds "8 word" "8 word"
  | SetNoiseFilter max31856_noise_filter_t
  | Wait nat

fun exec :: "operation \<Rightarrow> max31856 \<Rightarrow> max31856" where
  "exec Begin s = snd (begin_max s)"
| "exec (SetConversionMode mode) s = setConversionMode mode s"
| "exec GetConversionMode s = s"
| "exec (SetThermocoupleType type) s = setThermocoupleType type s"
| "exec GetThermocoupleType s = snd (getThermocoupleType s)"
| "exec ReadFault s = snd (readFault s)"
| "exec TriggerOneShot s = triggerOneShot s"
| "exec ConversionComplete s = snd (conversionComplete s)"
| "exec ReadCJTemperature s = snd (readCJTemperature s)"
| "exec ReadThermocoupleTemperature s = snd (readThermocoupleTemperature s)"
| "exec (SetTempFaultThreshholds flow fhigh) s = setTempFaultThreshholds flow fhigh s"
| "exec (SetColdJunctionFaultThreshholds low high) s = setColdJunctionFaultThreshholds low high s"
| "exec (SetNoiseFilter noiseFilter) s = setNoiseFilter noiseFilter s"
| "exec (Wait ms) s = delay ms s"

fun run :: "operation list \<Rightarrow> max31856 \<Rightarrow> max31856" where
  "run [] s = s"
| "run (x # xs) s = run xs (exec x s)"

text \<open>
  A write of the driver to the main configuration register, as it appears on the bus:
  two bytes, the first the register address with the write bit.
\<close>

fun cr0_write :: "event \<Rightarrow> 8 word option" where
  "cr0_write (Write [a, d]) = (if a = (MAX31856_CR0_REG OR 0x80) then Some d else None)"
| "cr0_write _ = None"

text \<open>
  What the data model's invariant asks of one recorded event: a write to the main
  configuration register made while the stored mode is CONTINUOUS has the ONE\_SHOT bit
  clear, and one made in a one-shot mode has the AUTOCONVERT bit clear.
\<close>

fun mode_respected :: "max31856_conversion_mode_t \<times> event \<Rightarrow> bool" where
  "mode_respected (mode, e) =
     (case cr0_write e of
        None \<Rightarrow> True
      | Some d \<Rightarrow>
          if mode = MAX31856_CONTINUOUS then d AND MAX31856_CR0_1SHOT = 0
          else d AND MAX31856_CR0_AUTOCONVERT = 0)"

text \<open>
  From state \<open>s\<close> to state \<open>s'\<close> the trace has only grown, and every event added
  respects the stored mode.
\<close>

definition appends_respecting :: "max31856 \<Rightarrow> max31856 \<Rightarrow> bool" where
  "appends_respecting s s' =
     (take (length (trace s)) (trace s') = trace s
      \<and> list_all mode_respected (drop (length (trace s)) (trace s')))"

text \<open>
  The main configuration register agrees with the stored mode: no ONE\_SHOT bit in
  CONTINUOUS mode, no AUTOCONVERT bit in a one-shot mode.
\<close>

definition cr0_consistent :: "max31856 \<Rightarrow> bool" where
  "cr0_consistent s =
     (if conversionMode s = MAX31856_CONTINUOUS
      then regs s MAX31856_CR0_REG AND MAX31856_CR0_1SHOT = 0
      else regs s MAX31856_CR0_REG AND MAX31856_CR0_AUTOCONVERT = 0)"

text \<open>A step that adds only respectful events and ends in a consistent state.\<close>

definition safe_step :: "max31856 \<Rightarrow> max31856 \<Rightarrow> bool" where
  "safe_step s s' = (appends_respecting s s' \<and> cr0_consistent s')"

subsection \<open>The raw temperature as a number\<close>

text \<open>
  The 24-bit value held by the linearized-temperature register triple, most significant
  byte first.
\<close>

definition raw24 :: "max31856 \<Rightarrow> int" where
  "raw24 s = 65536 * uint (regs s MAX31856_LTCBH_REG) + 256 * uint (regs s MAX31856_LTCBM_REG)
             + uint (regs s MAX31856_LTCBL_REG)"

subsection \<open>A concrete chip for evaluation\<close>

text \<open>
  A chip with all registers zero except the given ones, that needs \<open>ms\<close> milliseconds
  for a conversion, behind a bus that can be acquired, and a driver object not yet
  initialised.
\<close>

definition chip_with :: "(8 word \<times> 8 word) list \<Rightarrow> nat option \<Rightarrow> max31856" where
  "chip_with contents ms =
     \<lparr>initialized = False, conversionMode = MAX31856_ONESHOT, spi_begin_ok = True,
      regs = (\<lambda>a. case map_of contents a of None \<Rightarrow> 0 | Some v \<Rightarrow> v),
      conv_time = ms, conv_left = None, clock = 0, trace = []\<rparr>"

section \<open>The polling loop terminates\<close>

lemma clock_emit: "clock (emit e s) = clock s" by (simp add: emit_def)

lemma clock_readRegister8: "clock (snd (readRegister8 a s)) = clock s"
  by (simp add: readRegister8_def readRegisterN_def spi_write_then_read_def emit_def split: prod.splits list.splits)

lemma clock_conversionComplete: "clock (snd (conversionComplete s)) = clock s"
  using clock_readRegister8[of "MAX31856_CR0_REG" s]
  by (auto simp add: conversionComplete_def split: prod.splits)

lemma clock_chip_elapse: "clock (chip_elapse n s) = clock s"
  by (simp add: chip_elapse_def split: option.splits)

lemma clock_delay: "clock (delay n s) = clock s + of_nat n"
  by (simp add: delay_def clock_chip_elapse)

lemma unat_plus_10:
  fixes x :: "32 word"
  assumes "\<not> 250 < x"
  shows "unat (x + 10) = unat x + 10"
proof -
  from assms have "unat x \<le> 250"
    by (simp add: word_le_nat_alt not_less)
  then have "unat x + unat (10 :: 32 word) < 2 ^ LENGTH(32)" by simp
  then have "unat (x + 10) = unat x + unat (10 :: 32 word)"
    by (simp only: unat_add_lem [THEN iffD1])
  then show ?thesis by simp
qed

termination wait_conversion
proof (relation "measure (\<lambda>(start, s). 261 - unat (clock s - start))")
  show "wf (measure (\<lambda>(start, s). 261 - unat (clock s - start)))" by simp
next
  fix start :: "32 word" and s :: max31856 and x1 x2
  assume a: "(x1, x2) = conversionComplete s" "\<not> 250 < millis x2 - start"
  from a(2) have le: "\<not> 250 < clock x2 - start" by (simp add: millis_def)
  have c: "clock x2 = clock s"
    using clock_conversionComplete[of s] a(1)[symmetric] by simp
  have e: "clock (delay 10 x2) - start = (clock x2 - start) + 10"
    by (simp add: clock_delay)
  have "unat (clock (delay 10 x2) - start) = unat (clock x2 - start) + 10"
    by (simp only: e unat_plus_10[OF le])
  moreover from le have "unat (clock x2 - start) \<le> 250"
    by (simp add: word_le_nat_alt not_less)
  ultimately show "((start, delay 10 x2), (start, s)) \<in> measure (\<lambda>(start, s). 261 - unat (clock s - start))"
    using c by simp
qed

text \<open>The loop's equation unfolds itself; it is applied one step at a time.\<close>

declare wait_conversion.simps [simp del]

section \<open>Bytes, words and integers\<close>

lemma int_shift_or:
  fixes a b :: int
  assumes "0 \<le> b" "b < 256"
  shows "push_bit 8 a OR b = 256 * a + b"
proof -
  from assms have tb: "take_bit 8 b = b" by (simp add: take_bit_int_eq_self)
  have "push_bit 8 a OR b = concat_bit 8 b a"
    by (simp add: concat_bit_def tb or.commute)
  also have "\<dots> = take_bit 8 b + push_bit 8 a" by (rule concat_bit_eq)
  finally show ?thesis by (simp add: tb push_bit_eq_mult)
qed

lemma uint_byte_bounds: fixes b :: "8 word" shows "0 \<le> uint b" "uint b < 256"
  using uint_bounded[of b] by simp_all

lemma uint_cat16:
  fixes b0 b1 :: "8 word"
  shows "uint (push_bit 8 (ucast b0) OR ucast b1 :: 16 word) = 256 * uint b0 + uint b1"
proof -
  have u0: "uint (ucast b0 :: 16 word) = uint b0" by (simp add: uint_up_ucast is_up)
  have u1: "uint (ucast b1 :: 16 word) = uint b1" by (simp add: uint_up_ucast is_up)
  have "uint (push_bit 8 (ucast b0 :: 16 word)) = take_bit 16 (push_bit 8 (uint b0))"
    by (simp only: unsigned_push_bit_eq u0) simp
  also have "\<dots> = push_bit 8 (uint b0)"
    using uint_byte_bounds[of b0] by (intro take_bit_int_eq_self) (simp_all add: push_bit_eq_mult)
  finally have p: "uint (push_bit 8 (ucast b0 :: 16 word)) = push_bit 8 (uint b0)" .
  show ?thesis
    using uint_byte_bounds[of b1]
    by (simp only: uint_or p u1 int_shift_or)
qed

lemma uint_cat24:
  fixes b0 b1 b2 :: "8 word"
  shows "uint (push_bit 8 (push_bit 8 (ucast b0) OR ucast b1) OR ucast b2 :: 32 word)
         = 65536 * uint b0 + 256 * uint b1 + uint b2"
proof -
  have u0: "uint (ucast b0 :: 32 word) = uint b0" by (simp add: uint_up_ucast is_up)
  have u1: "uint (ucast b1 :: 32 word) = uint b1" by (simp add: uint_up_ucast is_up)
  have u2: "uint (ucast b2 :: 32 word) = uint b2" by (simp add: uint_up_ucast is_up)
  have "uint (push_bit 8 (ucast b0 :: 32 word)) = take_bit 32 (push_bit 8 (uint b0))"
    by (simp only: unsigned_push_bit_eq u0) simp
  also have "\<dots> = push_bit 8 (uint b0)"
    using uint_byte_bounds[of b0] by (intro take_bit_int_eq_self) (simp_all add: push_bit_eq_mult)
  finally have p: "uint (push_bit 8 (ucast b0 :: 32 word)) = push_bit 8 (uint b0)" .
  have q: "uint (push_bit 8 (ucast b0) OR ucast b1 :: 32 word) = 256 * uint b0 + uint b1"
    using uint_byte_bounds[of b1]
    by (simp only: uint_or p u1 int_shift_or)
  have "uint (push_bit 8 (push_bit 8 (ucast b0) OR ucast b1 :: 32 word))
        = take_bit 32 (push_bit 8 (256 * uint b0 + uint b1))"
    by (simp only: unsigned_push_bit_eq q) simp
  also have "\<dots> = push_bit 8 (256 * uint b0 + uint b1)"
    using uint_byte_bounds[of b0] uint_byte_bounds[of b1]
    by (intro take_bit_int_eq_self) (simp_all add: push_bit_eq_mult)
  finally have r: "uint (push_bit 8 (push_bit 8 (ucast b0) OR ucast b1 :: 32 word))
        = push_bit 8 (256 * uint b0 + uint b1)" .
  have "uint (push_bit 8 (push_bit 8 (ucast b0) OR ucast b1) OR ucast b2 :: 32 word)
        = 256 * (256 * uint b0 + uint b1) + uint b2"
    using uint_byte_bounds[of b2]
    by (simp only: uint_or r u2 int_shift_or)
  then show ?thesis by simp
qed

lemma int_top_bit:
  fixes k :: int
  assumes "0 \<le> k" "k < 2 * 2 ^ n"
  shows "bit k n \<longleftrightarrow> 2 ^ n \<le> k"
proof (cases "2 ^ n \<le> k")
  case True
  have "k div 2 ^ n = 1"
    by (rule int_div_pos_eq [where r = "k - 2 ^ n"]) (use True assms in simp_all)
  with True show ?thesis by (simp add: bit_iff_odd)
next
  case False
  then have "k div 2 ^ n = 0" using assms by (simp add: div_pos_pos_trivial)
  with False show ?thesis by (simp add: bit_iff_odd)
qed

lemma sint32:
  fixes w :: "32 word"
  shows "sint w = (if uint w < 2 ^ 31 then uint w else uint w - 2 ^ 32)"
proof -
  have b: "0 \<le> uint w" "uint w < 2 ^ 32" using uint_bounded[of w] by simp_all
  have "sint w = take_bit 32 (uint w) - 2 ^ 32 * of_bool (bit (uint w) 31)"
    by (simp add: sint_uint signed_take_bit_eq_take_bit_minus)
  moreover have "take_bit 32 (uint w) = uint w"
    using b by (simp add: take_bit_int_eq_self)
  moreover have "bit (uint w) 31 \<longleftrightarrow> 2 ^ 31 \<le> uint w"
    using b by (intro int_top_bit) simp_all
  ultimately show ?thesis by simp
qed

lemma int_or_high:
  fixes raw :: int
  assumes "0 \<le> raw" "raw < 2 ^ 24"
  shows "raw OR 0xFF000000 = raw + 0xFF000000"
proof -
  from assms have tb: "take_bit 24 raw = raw" by (simp add: take_bit_int_eq_self)
  have "(0xFF000000 :: int) = push_bit 24 255" by (simp add: push_bit_eq_mult)
  then have "raw OR 0xFF000000 = concat_bit 24 raw 255"
    by (simp only: concat_bit_def tb)
  also have "\<dots> = take_bit 24 raw + push_bit 24 255" by (rule concat_bit_eq)
  finally show ?thesis by (simp add: tb push_bit_eq_mult)
qed

lemma sign_fix:
  fixes r :: "32 word"
  assumes "uint r < 2 ^ 24"
  shows "sint (signed_drop_bit 5 (if r AND 0x800000 \<noteq> 0 then r OR 0xFF000000 else r))
         = (if 2 ^ 23 \<le> uint r then uint r - 2 ^ 24 else uint r) div 32"
proof -
  have nn: "0 \<le> uint r" by simp
  have "(0x800000 :: 32 word) = 2 ^ 23" by simp
  then have "r AND 0x800000 = 0 \<longleftrightarrow> \<not> bit r 23"
    by (simp only: and_exp_eq_0_iff_not_bit)
  also have "bit r 23 \<longleftrightarrow> bit (uint r) 23" by (simp add: bit_uint_iff)
  also have "\<dots> \<longleftrightarrow> 2 ^ 23 \<le> uint r"
    using assms nn by (intro int_top_bit) simp_all
  finally have test: "r AND 0x800000 \<noteq> 0 \<longleftrightarrow> 2 ^ 23 \<le> uint r" by simp
  have neg: "sint (r OR 0xFF000000) = uint r - 2 ^ 24" if "2 ^ 23 \<le> uint r"
  proof -
    have "uint (r OR 0xFF000000) = uint r OR 0xFF000000" by (simp add: uint_or)
    also have "\<dots> = uint r + 0xFF000000" using assms nn by (rule int_or_high[rotated])
    finally have u: "uint (r OR 0xFF000000) = uint r + 0xFF000000" .
    show ?thesis using that assms by (simp add: sint32 u)
  qed
  have pos: "sint r = uint r" if "\<not> 2 ^ 23 \<le> uint r"
    using that by (simp add: sint32)
  show ?thesis
    using neg pos by (simp add: test sint_signed_drop_bit_eq drop_bit_eq_div)
qed

section \<open>What each operation does to the state\<close>

lemma readRegister8_eq:
  "readRegister8 a s = (regs s (a AND 0x7F), emit (WriteThenRead [a AND 0x7F] 1) s)"
  by (simp add: readRegister8_def readRegisterN_def spi_write_then_read_def chip_fetch_def
      byte_at_def bit_simps)

lemma writeRegister8_eq:
  "writeRegister8 a d s =
     (emit (Write [a OR 0x80, d]) s)
       \<lparr>regs := (regs s)(a AND 0x7F := d),
        conv_left := (if a AND 0x7F = 0 \<and> bit d 6 then conv_time s else conv_left s)\<rparr>"
proof -
  have "(a OR 0x80) AND 0x7F = a AND 0x7F"
    by (simp add: word_ao_dist)
  moreover have "bit (a OR 0x80) 7" by (simp add: bit_simps)
  ultimately show ?thesis
    by (simp add: writeRegister8_def spi_write_def emit_def)
qed

lemma setThermocoupleType_eq:
  "setThermocoupleType t s =
     s\<lparr>regs := (regs s)(0x01 := (regs s 0x01 AND 0xF0) OR (t AND 0x0F)),
       trace := trace s @ [(conversionMode s, WriteThenRead [0x01] 1),
                           (conversionMode s, Write [0x81, (regs s 0x01 AND 0xF0) OR (t AND 0x0F)])]\<rparr>"
  by (simp add: setThermocoupleType_def readRegister8_eq writeRegister8_eq emit_def Let_def)

lemma getThermocoupleType_eq:
  "getThermocoupleType s =
     (regs s 0x01 AND 0x0F, s\<lparr>trace := trace s @ [(conversionMode s, WriteThenRead [0x01] 1)]\<rparr>)"
  by (simp add: getThermocoupleType_def readRegister8_eq emit_def)

lemma low_nibble_id:
  fixes t :: "8 word"
  assumes "t \<le> 0x0F"
  shows "t AND 0x0F = t"
proof -
  have m: "(0x0F :: 8 word) = mask 4" by (simp add: mask_eq_exp_minus_1)
  from assms have "t < 2 ^ 4" by (simp add: word_less_nat_alt word_le_nat_alt)
  then have "t AND mask 4 = t" by (rule less_mask_eq)
  then show ?thesis by (simp only: m)
qed

lemma nibble_merge_low: "((r AND 0xF0) OR (t AND 0x0F)) AND 0x0F = t AND (0x0F :: 8 word)"
  by (simp add: word_ao_dist and.assoc)

lemma nibble_merge_high: "((r AND 0xF0) OR (t AND 0x0F)) AND 0xF0 = r AND (0xF0 :: 8 word)"
  by (simp add: word_ao_dist and.assoc)

lemma conversionComplete_eq:
  "conversionComplete s =
     (if conversionMode s = MAX31856_CONTINUOUS then (True, s)
      else (regs s 0x00 AND 0x40 = 0,
            s\<lparr>trace := trace s @ [(conversionMode s, WriteThenRead [0x00] 1)]\<rparr>))"
  by (simp add: conversionComplete_def readRegister8_eq emit_def)

lemma triggerOneShot_eq:
  "triggerOneShot s =
     (if conversionMode s = MAX31856_CONTINUOUS then s
      else s\<lparr>regs := (regs s)(0x00 := (regs s 0x00 AND NOT 0x80) OR 0x40),
             conv_left := conv_time s,
             trace := trace s @ [(conversionMode s, WriteThenRead [0x00] 1),
                                 (conversionMode s, Write [0x80, (regs s 0x00 AND NOT 0x80) OR 0x40])]\<rparr>)"
  by (simp add: triggerOneShot_def readRegister8_eq writeRegister8_eq emit_def bit_simps Let_def)

lemma setConversionMode_eq:
  "setConversionMode mode s =
     (let t = (if mode = MAX31856_CONTINUOUS then (regs s 0x00 OR 0x80) AND NOT 0x40
               else (regs s 0x00 AND NOT 0x80) OR 0x40)
      in s\<lparr>conversionMode := mode,
            regs := (regs s)(0x00 := t),
            conv_left := (if bit t 6 then conv_time s else conv_left s),
            trace := trace s @ [(mode, WriteThenRead [0x00] 1), (mode, Write [0x80, t])]\<rparr>)"
  by (simp add: setConversionMode_def readRegister8_eq writeRegister8_eq emit_def Let_def)

lemma setNoiseFilter_eq:
  "setNoiseFilter f s =
     (let t = (if f = MAX31856_NOISE_FILTER_50HZ then regs s 0x00 OR 0x01 else regs s 0x00 AND 0xfe)
      in s\<lparr>regs := (regs s)(0x00 := t),
            conv_left := (if bit t 6 then conv_time s else conv_left s),
            trace := trace s @ [(conversionMode s, WriteThenRead [0x00] 1),
                                (conversionMode s, Write [0x80, t])]\<rparr>)"
  by (simp add: setNoiseFilter_def readRegister8_eq writeRegister8_eq emit_def Let_def)

lemma delay_eq:
  "delay ms s =
     (case conv_left s of
        None \<Rightarrow> s\<lparr>clock := clock s + of_nat ms, trace := trace s @ [(conversionMode s, Delay ms)]\<rparr>
      | Some r \<Rightarrow>
          if r \<le> ms
          then s\<lparr>regs := (regs s)(0x00 := regs s 0x00 AND NOT 0x40), conv_left := None,
                 clock := clock s + of_nat ms, trace := trace s @ [(conversionMode s, Delay ms)]\<rparr>
          else s\<lparr>conv_left := Some (r - ms),
                 clock := clock s + of_nat ms, trace := trace s @ [(conversionMode s, Delay ms)]\<rparr>)"
  by (simp add: delay_def chip_elapse_def emit_def split: option.splits)

section \<open>The polling loop, step by step\<close>

lemma wait_conversion_ok:
  assumes "conversionMode s \<noteq> MAX31856_CONTINUOUS"
      and "conv_left s = Some r"
      and "r \<le> 10 * k"
      and "unat (clock s - start) + 10 * k \<le> 260"
      and "0 < k"
  shows "\<exists>s'. wait_conversion start s = (True, s')
              \<and> (\<forall>a. a \<noteq> 0x00 \<longrightarrow> regs s' a = regs s a)
              \<and> conversionMode s' = conversionMode s"
  using assms
proof (induction k arbitrary: s r)
  case 0
  then show ?case by simp
next
  case (Suc k)
  define s1 where "s1 = s\<lparr>trace := trace s @ [(conversionMode s, WriteThenRead [0x00] 1)]\<rparr>"
  define s2 where "s2 = delay 10 s1"
  have cc: "conversionComplete s = (regs s 0x00 AND 0x40 = 0, s1)"
    using Suc.prems(1) by (simp add: conversionComplete_eq s1_def)
  show ?case
  proof (cases "regs s 0x00 AND 0x40 = 0")
    case True
    then show ?thesis
      by (subst wait_conversion.simps) (simp add: cc s1_def)
  next
    case False
    from Suc.prems(4) have e: "unat (clock s - start) \<le> 250" by simp
    then have nl: "\<not> 250 < clock s - start"
      by (simp add: word_less_nat_alt)
    have step: "wait_conversion start s = wait_conversion start s2"
      using False nl by (subst wait_conversion.simps) (simp add: cc millis_def s1_def s2_def)
    have m2: "conversionMode s2 = conversionMode s"
      by (simp add: s2_def s1_def delay_eq split: option.splits)
    have c2: "clock s2 = clock s + 10"
      by (simp add: s2_def s1_def delay_eq split: option.splits)
    show ?thesis
    proof (cases "r \<le> 10")
      case True
      have r2: "regs s2 = (regs s)(0x00 := regs s 0x00 AND NOT 0x40)"
        using True Suc.prems(2) by (simp add: s2_def s1_def delay_eq)
      have "(regs s 0x00 AND NOT 0x40) AND 0x40 = 0"
        by (simp add: and.assoc)
      then have "conversionComplete s2
                 = (True, s2\<lparr>trace := trace s2 @ [(conversionMode s2, WriteThenRead [0x00] 1)]\<rparr>)"
        using Suc.prems(1) by (simp add: conversionComplete_eq m2 r2)
      then have "wait_conversion start s2
                 = (True, s2\<lparr>trace := trace s2 @ [(conversionMode s2, WriteThenRead [0x00] 1)]\<rparr>)"
        by (subst wait_conversion.simps) simp
      then show ?thesis
        by (simp add: step r2 m2)
    next
      case False
      have r2: "regs s2 = regs s" and l2: "conv_left s2 = Some (r - 10)"
        using False Suc.prems(2) by (simp_all add: s2_def s1_def delay_eq)
      have "clock s2 - start = (clock s - start) + 10" by (simp add: c2)
      then have u: "unat (clock s2 - start) = unat (clock s - start) + 10"
        by (simp only: unat_plus_10[OF nl])
      have "unat (clock s2 - start) + 10 * k \<le> 260"
        using Suc.prems(4) unfolding u by simp
      moreover have "r - 10 \<le> 10 * k" using Suc.prems(3) by simp
      moreover have "0 < k" using False Suc.prems(3) by (cases k) simp_all
      moreover have "conversionMode s2 \<noteq> MAX31856_CONTINUOUS"
        using Suc.prems(1) by (simp add: m2)
      ultimately obtain s' where
        "wait_conversion start s2 = (True, s')"
        "\<forall>a. a \<noteq> 0x00 \<longrightarrow> regs s' a = regs s2 a"
        "conversionMode s' = conversionMode s2"
        using Suc.IH[of s2 "r - 10"] l2 by blast
      then show ?thesis
        by (simp add: step r2 m2)
    qed
  qed
qed

lemma wait_conversion_never:
  assumes "conversionMode s \<noteq> MAX31856_CONTINUOUS"
      and "conv_left s = None"
      and "regs s 0x00 AND 0x40 \<noteq> 0"
      and "unat (clock s - start) + 10 * k = 260"
  shows "wait_conversion start s =
           (False,
            s\<lparr>clock := clock s + of_nat (10 * k),
              trace := trace s @ map (Pair (conversionMode s))
                         (concat (replicate k [WriteThenRead [0x00] 1, Delay 10])
                          @ [WriteThenRead [0x00] 1])\<rparr>)"
  using assms
proof (induction k arbitrary: s)
  case 0
  then have "unat (clock s - start) = 260" by simp
  then have "250 < clock s - start" by (simp add: word_less_nat_alt)
  then show ?case
    using "0.prems"(1,3)
    by (subst wait_conversion.simps) (simp add: conversionComplete_eq millis_def)
next
  case (Suc k)
  define s1 where "s1 = s\<lparr>trace := trace s @ [(conversionMode s, WriteThenRead [0x00] 1)]\<rparr>"
  define s2 where "s2 = delay 10 s1"
  have cc: "conversionComplete s = (False, s1)"
    using Suc.prems(1,3) by (simp add: conversionComplete_eq s1_def)
  from Suc.prems(4) have "unat (clock s - start) \<le> 250" by simp
  then have nl: "\<not> 250 < clock s - start" by (simp add: word_less_nat_alt)
  have step: "wait_conversion start s = wait_conversion start s2"
    using nl by (subst wait_conversion.simps) (simp add: cc millis_def s1_def s2_def)
  have s2: "s2 = s\<lparr>clock := clock s + 10,
                    trace := trace s @ [(conversionMode s, WriteThenRead [0x00] 1),
                                        (conversionMode s, Delay 10)]\<rparr>"
    using Suc.prems(2) by (simp add: s2_def s1_def delay_eq)
  have "clock s2 - start = (clock s - start) + 10" by (simp add: s2)
  then have "unat (clock s2 - start) = unat (clock s - start) + 10"
    by (simp only: unat_plus_10[OF nl])
  then have t2: "unat (clock s2 - start) + 10 * k = 260"
    using Suc.prems(4) by simp
  have p2: "conversionMode s2 \<noteq> MAX31856_CONTINUOUS" "conv_left s2 = None"
    "regs s2 0x00 AND 0x40 \<noteq> 0"
    using Suc.prems(1,2,3) by (simp_all add: s2)
  have "wait_conversion start s2 =
           (False,
            s2\<lparr>clock := clock s2 + of_nat (10 * k),
              trace := trace s2 @ map (Pair (conversionMode s2))
                         (concat (replicate k [WriteThenRead [0x00] 1, Delay 10])
                          @ [WriteThenRead [0x00] 1])\<rparr>)"
    by (rule Suc.IH [OF p2 t2])
  then show ?case
    by (simp add: step) (simp add: s2 add.assoc)
qed

lemma readRegister24_eq:
  "readRegister24 a s =
     (push_bit 8 (push_bit 8 (ucast (regs s (a AND 0x7F))) OR ucast (regs s ((a AND 0x7F) + 1)))
        OR ucast (regs s ((a AND 0x7F) + 2)),
      s\<lparr>trace := trace s @ [(conversionMode s, WriteThenRead [a AND 0x7F] 3)]\<rparr>)"
proof -
  have "[0..<3] = [0, 1, 2]" by (simp add: upt_rec)
  then show ?thesis
    by (simp add: readRegister24_def readRegisterN_def spi_write_then_read_def chip_fetch_def
      byte_at_def bit_simps emit_def)
qed

lemma readRegister16_eq:
  "readRegister16 a s =
     (push_bit 8 (ucast (regs s (a AND 0x7F))) OR ucast (regs s ((a AND 0x7F) + 1)),
      s\<lparr>trace := trace s @ [(conversionMode s, WriteThenRead [a AND 0x7F] 2)]\<rparr>)"
proof -
  have "[0..<2] = [0, 1]" by (simp add: upt_rec)
  then show ?thesis
    by (simp add: readRegister16_def readRegisterN_def spi_write_then_read_def chip_fetch_def
      byte_at_def bit_simps emit_def)
qed

section \<open>Thermocouple type: write, then read back\<close>

text \<open>
  C5: for every 4-bit type code \<open>t\<close> and every prior content of the type-configuration
  register (the state \<open>s\<close> is arbitrary), \<open>setThermocoupleType t\<close> followed by
  \<open>getThermocoupleType\<close> returns exactly \<open>t\<close>, and the upper four bits of the register
  are the same after \<open>setThermocoupleType t\<close> as before it.
\<close>

theorem setThermocoupleType_roundtrip:
  assumes "t \<le> 0x0F"
  shows "fst (getThermocoupleType (setThermocoupleType t s)) = t
       \<and> regs (setThermocoupleType t s) MAX31856_CR1_REG AND 0xF0 = regs s MAX31856_CR1_REG AND 0xF0"
proof -
  have "fst (getThermocoupleType (setThermocoupleType t s)) = t AND 0x0F"
    by (simp add: setThermocoupleType_eq getThermocoupleType_eq nibble_merge_low)
  moreover have "regs (setThermocoupleType t s) MAX31856_CR1_REG AND 0xF0
                 = regs s MAX31856_CR1_REG AND 0xF0"
    by (simp add: setThermocoupleType_eq nibble_merge_high)
  ultimately show ?thesis by (simp only: low_nibble_id[OF assms] simp_thms)
qed


theorem setThermocoupleType_roundtrip_witness:
  "MAX31856_VMODE_G32 \<le> 0x0F
   \<and> fst (getThermocoupleType
            (setThermocoupleType MAX31856_VMODE_G32 (chip_with [(0x01, 0xA5)] None)))
       = MAX31856_VMODE_G32
   \<and> regs (setThermocoupleType MAX31856_VMODE_G32 (chip_with [(0x01, 0xA5)] None))
         MAX31856_CR1_REG AND 0xF0 = 0xA0"
proof -
  have h: "MAX31856_VMODE_G32 \<le> 0x0F" by simp
  show ?thesis
    using h setThermocoupleType_roundtrip [OF h, of "chip_with [(0x01, 0xA5)] None"]
    by (simp add: chip_with_def)
qed

section \<open>Reading the thermocouple temperature\<close>

text \<open>
  The read completes when the mode is not the blocking one-shot mode, or when the chip
  finishes its conversion within 260 ms, that is, by the poll made 260 ms after the
  trigger, the last one the loop makes.
\<close>

lemma raw24_bounds: "0 \<le> raw24 s" "raw24 s < 2 ^ 24"
  using uint_byte_bounds[of "regs s 0x0C"] uint_byte_bounds[of "regs s 0x0D"]
    uint_byte_bounds[of "regs s 0x0E"]
  by (simp_all add: raw24_def)

lemma uint_raw24: "uint (word_of_int (raw24 s) :: 32 word) = raw24 s"
  using raw24_bounds[of s] by (simp add: uint_word_of_int take_bit_int_eq_self)

lemma bit23_raw24: "bit (raw24 s) 23 \<longleftrightarrow> 2 ^ 23 \<le> raw24 s"
  using raw24_bounds[of s] by (intro int_top_bit) simp_all

lemma bit23_test: "(word_of_int (raw24 s) :: 32 word) AND 0x800000 \<noteq> 0 \<longleftrightarrow> bit (raw24 s) 23"
proof -
  have "(0x800000 :: 32 word) = 2 ^ 23" by simp
  then have "(word_of_int (raw24 s) :: 32 word) AND 0x800000 = 0
             \<longleftrightarrow> \<not> bit (word_of_int (raw24 s) :: 32 word) 23"
    by (simp only: and_exp_eq_0_iff_not_bit)
  also have "bit (word_of_int (raw24 s) :: 32 word) 23 \<longleftrightarrow> bit (raw24 s) 23"
    by (simp add: bit_word_of_int_iff)
  finally show ?thesis by simp
qed

lemma readRegister24_LTCBH:
  "readRegister24 0x0C s =
     (word_of_int (raw24 s),
      s\<lparr>trace := trace s @ [(conversionMode s, WriteThenRead [0x0C] 3)]\<rparr>)"
proof -
  have "uint (push_bit 8 (push_bit 8 (ucast (regs s 0x0C)) OR ucast (regs s 0x0D))
              OR ucast (regs s 0x0E) :: 32 word) = raw24 s"
    by (simp only: uint_cat24 raw24_def MAX31856_LTCBH_REG_def MAX31856_LTCBM_REG_def
        MAX31856_LTCBL_REG_def)
  then have "(push_bit 8 (push_bit 8 (ucast (regs s 0x0C)) OR ucast (regs s 0x0D))
              OR ucast (regs s 0x0E) :: 32 word) = word_of_int (raw24 s)"
    by (metis word_of_int_uint)
  then show ?thesis
    by (simp add: readRegister24_eq)
qed

lemma read_direct:
  "fst (case readRegister24 MAX31856_LTCBH_REG s2 of
          (temp24, s3) \<Rightarrow>
            (let temp24 = (if temp24 AND 0x800000 \<noteq> 0 then temp24 OR 0xFF000000 else temp24);
                 temp24 = signed_drop_bit 5 temp24
             in (Finite (real_of_int (sint temp24) * 0.0078125), s3)))
   = Finite (real_of_int (sint (signed_drop_bit 5
               (if bit (raw24 s2) 23 then word_of_int (raw24 s2) OR 0xFF000000
                else word_of_int (raw24 s2) :: 32 word))) * 0.0078125)"
  by (simp add: readRegister24_LTCBH bit23_test Let_def)

lemma raw24_cong: "(\<forall>a. a \<noteq> 0x00 \<longrightarrow> regs s' a = regs s a) \<Longrightarrow> raw24 s' = raw24 s"
  by (simp add: raw24_def)

lemma readThermocoupleTemperature_word:
  assumes "conversionMode s \<noteq> MAX31856_ONESHOT \<or> (\<exists>d. conv_time s = Some d \<and> d \<le> 260)"
  shows "fst (readThermocoupleTemperature s)
         = Finite (real_of_int (sint (signed_drop_bit 5
               (if bit (raw24 s) 23 then word_of_int (raw24 s) OR 0xFF000000
                else word_of_int (raw24 s) :: 32 word))) * 0.0078125)"
proof (cases "conversionMode s = MAX31856_ONESHOT")
  case False
  then show ?thesis
    using read_direct[of s] by (simp add: readThermocoupleTemperature_def)
next
  case True
  with assms obtain d where d: "conv_time s = Some d" "d \<le> 260" by blast
  define s1 where "s1 = triggerOneShot s"
  have m1: "conversionMode s1 = MAX31856_ONESHOT" and l1: "conv_left s1 = Some d"
    and r1: "\<forall>a. a \<noteq> 0x00 \<longrightarrow> regs s1 a = regs s a"
    using True d by (simp_all add: s1_def triggerOneShot_eq)
  have "\<exists>s'. wait_conversion (millis s1) s1 = (True, s')
              \<and> (\<forall>a. a \<noteq> 0x00 \<longrightarrow> regs s' a = regs s1 a)
              \<and> conversionMode s' = conversionMode s1"
    using m1 l1 d(2) by (intro wait_conversion_ok[where r = d and k = 26]) (simp_all add: millis_def)
  then obtain s' where w: "wait_conversion (millis s1) s1 = (True, s')"
    and r': "\<forall>a. a \<noteq> 0x00 \<longrightarrow> regs s' a = regs s1 a" by blast
  have "raw24 s' = raw24 s"
    using raw24_cong[OF r'] raw24_cong[OF r1] by simp
  then show ?thesis
    using read_direct[of s'] True w
    by (simp add: readThermocoupleTemperature_def s1_def[symmetric] Let_def)
qed

lemma sign_shift_raw24:
  "sint (signed_drop_bit 5
      (if bit (raw24 s) 23 then word_of_int (raw24 s) OR 0xFF000000
       else word_of_int (raw24 s) :: 32 word))
   = (if bit (raw24 s) 23 then raw24 s - 2 ^ 24 else raw24 s) div 32"
  using sign_fix[of "word_of_int (raw24 s)"] raw24_bounds[of s]
  by (simp add: uint_raw24 bit23_raw24 bit23_test[unfolded bit23_raw24])

lemma readThermocoupleTemperature_value:
  assumes "conversionMode s \<noteq> MAX31856_ONESHOT \<or> (\<exists>d. conv_time s = Some d \<and> d \<le> 260)"
  shows "fst (readThermocoupleTemperature s)
         = Finite (real_of_int ((if bit (raw24 s) 23 then raw24 s - 2 ^ 24 else raw24 s) div 32) / 128)"
  by (simp only: readThermocoupleTemperature_word[OF assms] sign_shift_raw24) simp

lemma negative_when_bit23:
  assumes "bit (raw24 s) 23"
  shows "real_of_int ((if bit (raw24 s) 23 then raw24 s - 2 ^ 24 else raw24 s) div 32) / 128 < 0"
proof -
  have "(raw24 s - 2 ^ 24) div 32 < 0" using raw24_bounds(2)[of s] by (simp add: div_neg_pos_less0)
  then show ?thesis using assms by simp
qed

text \<open>
  C3: whenever the read completes (the mode is not the blocking one, or the chip finishes
  the conversion in time), \<open>readThermocoupleTemperature\<close> returns, for every 24-bit raw
  value \<open>raw24 s\<close> of the register triple: the raw value with \<open>0xFF000000\<close> ORed in
  when bit 23 is set, shifted right arithmetically by 5 as a signed 32-bit integer and
  multiplied by 0.0078125; that is the two's complement value of the 24 bits divided by
  32 (rounding down) and then by 128; and with bit 23 set the result is negative.
\<close>

theorem readThermocoupleTemperature_decode:
  assumes "conversionMode s \<noteq> MAX31856_ONESHOT \<or> (\<exists>d. conv_time s = Some d \<and> d \<le> 260)"
  shows "fst (readThermocoupleTemperature s)
           = Finite (real_of_int (sint (signed_drop_bit 5
               (if bit (raw24 s) 23 then word_of_int (raw24 s) OR 0xFF000000
                else word_of_int (raw24 s) :: 32 word))) * 0.0078125)
       \<and> fst (readThermocoupleTemperature s)
           = Finite (real_of_int ((if bit (raw24 s) 23 then raw24 s - 2 ^ 24 else raw24 s) div 32)
                     / 128)
       \<and> (bit (raw24 s) 23 \<longrightarrow>
            (\<exists>x. fst (readThermocoupleTemperature s) = Finite x \<and> x < 0))"
  using readThermocoupleTemperature_word[OF assms] readThermocoupleTemperature_value[OF assms]
    negative_when_bit23[of s]
  by blast

theorem readThermocoupleTemperature_decode_witness:
  "conv_time (chip_with [(0x0C, 0xE7), (0x0D, 0x00), (0x0E, 0x00)] (Some 150)) = Some 150
   \<and> (150 :: nat) \<le> 260
   \<and> raw24 (chip_with [(0x0C, 0xE7), (0x0D, 0x00), (0x0E, 0x00)] (Some 150)) = 0xE70000
   \<and> bit (0xE70000 :: int) 23
   \<and> fst (readThermocoupleTemperature (chip_with [(0x0C, 0xE7), (0x0D, 0x00), (0x0E, 0x00)] (Some 150)))
       = Finite (- 400)"
proof -
  let ?w = "chip_with [(0x0C, 0xE7), (0x0D, 0x00), (0x0E, 0x00)] (Some 150)"
  have h: "conversionMode ?w \<noteq> MAX31856_ONESHOT \<or> (\<exists>d. conv_time ?w = Some d \<and> d \<le> 260)"
    by (simp add: chip_with_def)
  have r: "raw24 ?w = 0xE70000" by (simp add: raw24_def chip_with_def)
  have b: "bit (0xE70000 :: int) 23" by simp
  show ?thesis
    using readThermocoupleTemperature_decode [OF h] r b
    by (simp add: chip_with_def)
qed

text \<open>
  The spec's worked example for C2 does not hold on the code: with the register bytes
  0x19, 0x00, 0x00 the result is not 200.
\<close>

theorem readThermocoupleTemperature_0x190000_counterexample:
  "fst (readThermocoupleTemperature
         ((chip_with [(0x0C, 0x19), (0x0D, 0x00), (0x0E, 0x00)] None)
            \<lparr>conversionMode := MAX31856_CONTINUOUS\<rparr>)) \<noteq> Finite 200.0"
proof -
  let ?w = "(chip_with [(0x0C, 0x19), (0x0D, 0x00), (0x0E, 0x00)] None)
              \<lparr>conversionMode := MAX31856_CONTINUOUS\<rparr>"
  have h: "conversionMode ?w \<noteq> MAX31856_ONESHOT \<or> (\<exists>d. conv_time ?w = Some d \<and> d \<le> 260)"
    by simp
  have r: "raw24 ?w = 0x190000" by (simp add: raw24_def chip_with_def)
  show ?thesis
    by (simp add: readThermocoupleTemperature_value [OF h] r)
qed

text \<open>
  C2 (as amended): when the three linearized-temperature register bytes are 0x19, 0x00,
  0x00 and the read completes, \<open>readThermocoupleTemperature\<close> returns 400.0 degrees
  Celsius: \<open>0x190000 >> 5 = 51200\<close> and \<open>51200 * 0.0078125 = 400\<close>.
\<close>

theorem readThermocoupleTemperature_0x190000:
  assumes "regs s MAX31856_LTCBH_REG = 0x19"
      and "regs s MAX31856_LTCBM_REG = 0x00"
      and "regs s MAX31856_LTCBL_REG = 0x00"
      and "conversionMode s \<noteq> MAX31856_ONESHOT \<or> (\<exists>d. conv_time s = Some d \<and> d \<le> 260)"
  shows "fst (readThermocoupleTemperature s) = Finite 400.0"
proof -
  have r: "raw24 s = 0x190000" using assms(1-3) by (simp add: raw24_def)
  show ?thesis
    by (simp add: readThermocoupleTemperature_value [OF assms(4)] r)
qed

theorem readThermocoupleTemperature_0x190000_witness:
  "regs (chip_with [(0x0C, 0x19)] (Some 150)) MAX31856_LTCBH_REG = 0x19
   \<and> regs (chip_with [(0x0C, 0x19)] (Some 150)) MAX31856_LTCBM_REG = 0x00
   \<and> regs (chip_with [(0x0C, 0x19)] (Some 150)) MAX31856_LTCBL_REG = 0x00
   \<and> conv_time (chip_with [(0x0C, 0x19)] (Some 150)) = Some 150
   \<and> (150 :: nat) \<le> 260
   \<and> fst (readThermocoupleTemperature (chip_with [(0x0C, 0x19)] (Some 150))) = Finite 400.0"
proof -
  let ?w = "chip_with [(0x0C, 0x19)] (Some 150)"
  have a: "regs ?w MAX31856_LTCBH_REG = 0x19" "regs ?w MAX31856_LTCBM_REG = 0x00"
    "regs ?w MAX31856_LTCBL_REG = 0x00"
    by (simp_all add: chip_with_def)
  have h: "conversionMode ?w \<noteq> MAX31856_ONESHOT \<or> (\<exists>d. conv_time ?w = Some d \<and> d \<le> 260)"
    by (simp add: chip_with_def)
  show ?thesis
    using readThermocoupleTemperature_0x190000 [OF a h] a
    by (simp add: chip_with_def)
qed

text \<open>
  C4: in the blocking one-shot mode, with a chip that never clears the ONE\_SHOT bit,
  \<open>readThermocoupleTemperature\<close> triggers a conversion (a read and a write of the
  configuration register with ONE\_SHOT set and AUTOCONVERT clear), then polls the
  configuration register 27 times with \<open>delay(10)\<close> between two polls, and returns the
  not-a-number sentinel 260 ms after the trigger (the first poll at which more than
  250 ms have elapsed) without reading the temperature registers. In the two other
  modes it returns a number and its only bus transaction is the 3-byte read of the
  temperature registers.
\<close>

theorem readThermocoupleTemperature_blocking_timeout:
  "(conversionMode s = MAX31856_ONESHOT \<and> conv_time s = None \<longrightarrow>
      readThermocoupleTemperature s =
        (NAN,
         s\<lparr>regs := (regs s)(MAX31856_CR0_REG :=
                    (regs s MAX31856_CR0_REG AND NOT MAX31856_CR0_AUTOCONVERT) OR MAX31856_CR0_1SHOT),
           conv_left := None,
           clock := clock s + 260,
           trace := trace s @ map (Pair MAX31856_ONESHOT)
             ([WriteThenRead [0x00] 1,
               Write [0x80, (regs s MAX31856_CR0_REG AND NOT MAX31856_CR0_AUTOCONVERT)
                              OR MAX31856_CR0_1SHOT]]
              @ concat (replicate 26 [WriteThenRead [0x00] 1, Delay 10])
              @ [WriteThenRead [0x00] 1])\<rparr>))
   \<and> (conversionMode s \<noteq> MAX31856_ONESHOT \<longrightarrow>
        (\<exists>x. fst (readThermocoupleTemperature s) = Finite x)
        \<and> snd (readThermocoupleTemperature s) =
            s\<lparr>trace := trace s @ [(conversionMode s, WriteThenRead [0x0C] 3)]\<rparr>)"
proof (intro conjI impI)
  assume a: "conversionMode s = MAX31856_ONESHOT \<and> conv_time s = None"
  define v where "v = (regs s 0x00 AND NOT 0x80) OR (0x40 :: 8 word)"
  define s1 where "s1 = triggerOneShot s"
  have s1: "s1 = s\<lparr>regs := (regs s)(0x00 := v), conv_left := None,
                    trace := trace s @ [(MAX31856_ONESHOT, WriteThenRead [0x00] 1),
                                        (MAX31856_ONESHOT, Write [0x80, v])]\<rparr>"
    using a by (simp add: s1_def triggerOneShot_eq v_def)
  have "v AND 0x40 = 0x40" by (simp add: v_def word_ao_dist and.assoc)
  then have b: "regs s1 0x00 AND 0x40 \<noteq> 0" by (simp add: s1)
  have p: "conversionMode s1 \<noteq> MAX31856_CONTINUOUS" "conv_left s1 = None"
    using a by (simp_all add: s1)
  have t: "unat (clock s1 - millis s1) + 10 * 26 = 260" by (simp add: millis_def)
  have w: "wait_conversion (millis s1) s1 =
           (False,
            s1\<lparr>clock := clock s1 + of_nat (10 * 26),
              trace := trace s1 @ map (Pair (conversionMode s1))
                         (concat (replicate 26 [WriteThenRead [0x00] 1, Delay 10])
                          @ [WriteThenRead [0x00] 1])\<rparr>)"
    by (rule wait_conversion_never [OF p b t])
  have "readThermocoupleTemperature s =
          (NAN, s1\<lparr>clock := clock s1 + of_nat (10 * 26),
              trace := trace s1 @ map (Pair (conversionMode s1))
                         (concat (replicate 26 [WriteThenRead [0x00] 1, Delay 10])
                          @ [WriteThenRead [0x00] 1])\<rparr>)"
    using a by (simp only: readThermocoupleTemperature_def s1_def[symmetric] Let_def w) simp
  then show "readThermocoupleTemperature s =
        (NAN,
         s\<lparr>regs := (regs s)(MAX31856_CR0_REG :=
                    (regs s MAX31856_CR0_REG AND NOT MAX31856_CR0_AUTOCONVERT) OR MAX31856_CR0_1SHOT),
           conv_left := None,
           clock := clock s + 260,
           trace := trace s @ map (Pair MAX31856_ONESHOT)
             ([WriteThenRead [0x00] 1,
               Write [0x80, (regs s MAX31856_CR0_REG AND NOT MAX31856_CR0_AUTOCONVERT)
                              OR MAX31856_CR0_1SHOT]]
              @ concat (replicate 26 [WriteThenRead [0x00] 1, Delay 10])
              @ [WriteThenRead [0x00] 1])\<rparr>)"
    using a by (simp add: s1 v_def)
next
  assume a: "conversionMode s \<noteq> MAX31856_ONESHOT"
  then show "\<exists>x. fst (readThermocoupleTemperature s) = Finite x"
    using readThermocoupleTemperature_value[of s] by blast
next
  assume a: "conversionMode s \<noteq> MAX31856_ONESHOT"
  then show "snd (readThermocoupleTemperature s) =
            s\<lparr>trace := trace s @ [(conversionMode s, WriteThenRead [0x0C] 3)]\<rparr>"
    by (simp add: readThermocoupleTemperature_def readRegister24_eq Let_def)
qed

theorem readThermocoupleTemperature_blocking_timeout_witness:
  "conversionMode (chip_with [] None) = MAX31856_ONESHOT
   \<and> conv_time (chip_with [] None) = None
   \<and> fst (readThermocoupleTemperature (chip_with [] None)) = NAN
   \<and> clock (snd (readThermocoupleTemperature (chip_with [] None))) = 260
   \<and> length (trace (snd (readThermocoupleTemperature (chip_with [] None)))) = 55
   \<and> conversionMode ((chip_with [] None)\<lparr>conversionMode := MAX31856_CONTINUOUS\<rparr>)
       = MAX31856_CONTINUOUS
   \<and> trace (snd (readThermocoupleTemperature
                   ((chip_with [] None)\<lparr>conversionMode := MAX31856_CONTINUOUS\<rparr>)))
       = [(MAX31856_CONTINUOUS, WriteThenRead [0x0C] 3)]"
  using readThermocoupleTemperature_blocking_timeout [of "chip_with [] None"]
    readThermocoupleTemperature_blocking_timeout
      [of "(chip_with [] None)\<lparr>conversionMode := MAX31856_CONTINUOUS\<rparr>"]
  by (simp add: chip_with_def length_concat sum_list_replicate)

section \<open>Reading the cold-junction temperature\<close>

lemma readCJTemperature_value:
  "fst (readCJTemperature s)
   = Finite (real_of_int (256 * uint (regs s MAX31856_CJTH_REG) + uint (regs s MAX31856_CJTL_REG)) / 256)"
proof -
  have "real (unat (push_bit 8 (ucast (regs s 0x0A)) OR ucast (regs s 0x0B) :: 16 word))
        = real_of_int (uint (push_bit 8 (ucast (regs s 0x0A)) OR ucast (regs s 0x0B) :: 16 word))"
    by simp
  then show ?thesis
    by (simp add: readCJTemperature_def readRegister16_eq uint_cat16)
qed

lemma readCJTemperature_nonneg: "\<exists>x. fst (readCJTemperature s) = Finite x \<and> 0 \<le> x"
proof -
  have "0 \<le> 256 * uint (regs s MAX31856_CJTH_REG) + uint (regs s MAX31856_CJTL_REG)"
    by simp
  then have "0 \<le> real_of_int (256 * uint (regs s MAX31856_CJTH_REG) + uint (regs s MAX31856_CJTL_REG))"
    by (simp only: of_int_0_le_iff)
  then have "0 \<le> real_of_int (256 * uint (regs s MAX31856_CJTH_REG) + uint (regs s MAX31856_CJTL_REG)) / 256"
    by (rule divide_nonneg_nonneg) simp
  then show ?thesis
    using readCJTemperature_value[of s] by blast
qed

text \<open>The spec's example with bit 15 clear: the raw value 0x1900 reads as 25.0.\<close>

lemma readCJTemperature_0x1900:
  "fst (readCJTemperature (chip_with [(0x0A, 0x19), (0x0B, 0x00)] None)) = Finite 25"
  by (simp add: readCJTemperature_value chip_with_def)

text \<open>
  C1 fails on the code: \<open>readCJTemperature\<close> divides the unsigned 16-bit value by
  256. With the register pair 0xFF, 0x00 (bit 15 set) it returns 255.0, where the signed
  reading of the same 16 bits is \<open>-1.0\<close>. By \<open>readCJTemperature_nonneg\<close> no register
  content gives a negative result.
\<close>

theorem readCJTemperature_bit15_positive:
  "fst (readCJTemperature (chip_with [(0x0A, 0xFF), (0x0B, 0x00)] None)) = Finite 255
   \<and> real_of_int (sint (0xFF00 :: 16 word)) / 256 = - 1"
  by (simp add: readCJTemperature_value chip_with_def)

section \<open>Conversion status\<close>

text \<open>
  C7: in CONTINUOUS mode \<open>conversionComplete\<close> returns true and leaves the state, the
  trace of bus transactions included, as it was; in a one-shot mode it makes exactly one
  1-byte read of the main configuration register and returns true exactly when the
  ONE\_SHOT bit of that register is clear.
\<close>

theorem conversionComplete_spec:
  "(conversionMode s = MAX31856_CONTINUOUS \<longrightarrow> conversionComplete s = (True, s))
   \<and> (conversionMode s \<noteq> MAX31856_CONTINUOUS \<longrightarrow>
        conversionComplete s =
          (regs s MAX31856_CR0_REG AND MAX31856_CR0_1SHOT = 0,
           s\<lparr>trace := trace s @ [(conversionMode s, WriteThenRead [MAX31856_CR0_REG] 1)]\<rparr>))"
  by (simp add: conversionComplete_eq)

theorem conversionComplete_spec_witness:
  "conversionMode ((chip_with [(0x00, 0x50)] None)\<lparr>conversionMode := MAX31856_CONTINUOUS\<rparr>)
     = MAX31856_CONTINUOUS
   \<and> fst (conversionComplete
            ((chip_with [(0x00, 0x50)] None)\<lparr>conversionMode := MAX31856_CONTINUOUS\<rparr>))
   \<and> trace (snd (conversionComplete
            ((chip_with [(0x00, 0x50)] None)\<lparr>conversionMode := MAX31856_CONTINUOUS\<rparr>))) = []
   \<and> conversionMode (chip_with [(0x00, 0x50)] None) = MAX31856_ONESHOT
   \<and> fst (conversionComplete (chip_with [(0x00, 0x50)] None)) = False
   \<and> trace (snd (conversionComplete (chip_with [(0x00, 0x50)] None)))
       = [(MAX31856_ONESHOT, WriteThenRead [0x00] 1)]
   \<and> conversionMode ((chip_with [(0x00, 0x10)] None)\<lparr>conversionMode := MAX31856_ONESHOT_NOWAIT\<rparr>)
       = MAX31856_ONESHOT_NOWAIT
   \<and> fst (conversionComplete
            ((chip_with [(0x00, 0x10)] None)\<lparr>conversionMode := MAX31856_ONESHOT_NOWAIT\<rparr>))"
  using conversionComplete_spec
          [of "(chip_with [(0x00, 0x50)] None)\<lparr>conversionMode := MAX31856_CONTINUOUS\<rparr>"]
        conversionComplete_spec [of "chip_with [(0x00, 0x50)] None"]
        conversionComplete_spec
          [of "(chip_with [(0x00, 0x10)] None)\<lparr>conversionMode := MAX31856_ONESHOT_NOWAIT\<rparr>"]
  by (simp add: chip_with_def)

section \<open>Codes that are no enumerator\<close>

text \<open>
  C10: \<open>getThermocoupleType\<close> returns the low four bits of the type-configuration
  register, a value of at most 15; when that nibble is not one of the ten enumerators
  the returned value is none either (it is the nibble itself).
\<close>

theorem getThermocoupleType_nibble:
  "fst (getThermocoupleType s) = regs s MAX31856_CR1_REG AND 0x0F
   \<and> fst (getThermocoupleType s) \<le> 15
   \<and> (regs s MAX31856_CR1_REG AND 0x0F \<notin> set tctype_enumerators \<longrightarrow>
        fst (getThermocoupleType s) \<notin> set tctype_enumerators)"
proof -
  have "regs s 0x01 AND 0x0F \<le> 0x0F" by (rule word_and_le1)
  then show ?thesis by (simp add: getThermocoupleType_eq)
qed

theorem getThermocoupleType_nibble_witness:
  "regs (chip_with [(0x01, 0b01001001)] None) MAX31856_CR1_REG AND 0x0F = 0b1001
   \<and> (0b1001 :: 8 word) \<notin> set tctype_enumerators
   \<and> fst (getThermocoupleType (chip_with [(0x01, 0b01001001)] None)) = 0b1001
   \<and> fst (getThermocoupleType (chip_with [(0x01, 0b01001001)] None)) \<notin> set tctype_enumerators"
  using getThermocoupleType_nibble [of "chip_with [(0x01, 0b01001001)] None"]
  by (simp add: chip_with_def tctype_enumerators_def)

section \<open>The configuration register agrees with the stored mode\<close>

lemma appends_respectingI:
  "trace s' = trace s @ es \<Longrightarrow> list_all mode_respected es \<Longrightarrow> appends_respecting s s'"
  by (simp add: appends_respecting_def)

lemma appends_respectingD:
  assumes "appends_respecting s s'"
  shows "\<exists>es. trace s' = trace s @ es \<and> list_all mode_respected es"
proof -
  have "trace s' = take (length (trace s)) (trace s') @ drop (length (trace s)) (trace s')"
    by simp
  with assms show ?thesis
    unfolding appends_respecting_def by metis
qed

lemma appends_respecting_refl: "appends_respecting s s"
  by (simp add: appends_respecting_def)

lemma appends_respecting_trans:
  assumes "appends_respecting s s1" "appends_respecting s1 s2"
  shows "appends_respecting s s2"
proof -
  from appends_respectingD[OF assms(1)] obtain es1 where
    1: "trace s1 = trace s @ es1" "list_all mode_respected es1" by blast
  from appends_respectingD[OF assms(2)] obtain es2 where
    2: "trace s2 = trace s1 @ es2" "list_all mode_respected es2" by blast
  have "trace s2 = trace s @ (es1 @ es2)" using 1 2 by simp
  moreover have "list_all mode_respected (es1 @ es2)" using 1 2 by simp
  ultimately show ?thesis by (rule appends_respectingI)
qed


lemma safe_step_trans:
  "safe_step s s1 \<Longrightarrow> safe_step s1 s2 \<Longrightarrow> safe_step s s2"
  using appends_respecting_trans by (auto simp: safe_step_def)

lemmas bw = word_ao_dist and.assoc

lemma cr0_consistent_iff:
  "cr0_consistent s \<longleftrightarrow>
     (conversionMode s = MAX31856_CONTINUOUS \<longrightarrow> regs s 0x00 AND 0x40 = 0)
     \<and> (conversionMode s \<noteq> MAX31856_CONTINUOUS \<longrightarrow> regs s 0x00 AND 0x80 = 0)"
  by (simp add: cr0_consistent_def)

lemma setConversionMode_safe: "safe_step s (setConversionMode mode s)"
  by (simp add: safe_step_def appends_respecting_def cr0_consistent_iff setConversionMode_eq
      Let_def bw)

lemma triggerOneShot_safe: "cr0_consistent s \<Longrightarrow> safe_step s (triggerOneShot s)"
  by (simp add: safe_step_def appends_respecting_def cr0_consistent_iff triggerOneShot_eq bw)

lemma setNoiseFilter_safe: "cr0_consistent s \<Longrightarrow> safe_step s (setNoiseFilter f s)"
  by (simp add: safe_step_def appends_respecting_def cr0_consistent_iff setNoiseFilter_eq
      Let_def bw)

lemma setThermocoupleType_safe: "cr0_consistent s \<Longrightarrow> safe_step s (setThermocoupleType t s)"
  by (simp add: safe_step_def appends_respecting_def cr0_consistent_iff setThermocoupleType_eq)

lemma getThermocoupleType_safe: "cr0_consistent s \<Longrightarrow> safe_step s (snd (getThermocoupleType s))"
  by (simp add: safe_step_def appends_respecting_def cr0_consistent_iff getThermocoupleType_eq)

lemma conversionComplete_safe: "cr0_consistent s \<Longrightarrow> safe_step s (snd (conversionComplete s))"
  by (simp add: safe_step_def appends_respecting_def cr0_consistent_iff conversionComplete_eq)

lemma readFault_safe: "cr0_consistent s \<Longrightarrow> safe_step s (snd (readFault s))"
  by (simp add: safe_step_def appends_respecting_def cr0_consistent_iff readFault_def
      readRegister8_eq emit_def)

lemma readCJTemperature_safe: "cr0_consistent s \<Longrightarrow> safe_step s (snd (readCJTemperature s))"
  by (simp add: safe_step_def appends_respecting_def cr0_consistent_iff readCJTemperature_def
      readRegister16_eq)

lemma readRegister24_safe:
  "cr0_consistent s \<Longrightarrow> safe_step s (snd (readRegister24 a s))"
  by (simp add: safe_step_def appends_respecting_def cr0_consistent_iff readRegister24_eq)

lemma delay_safe: "cr0_consistent s \<Longrightarrow> safe_step s (delay ms s)"
  by (simp add: safe_step_def appends_respecting_def cr0_consistent_iff delay_eq bw
      split: option.splits)

lemma setColdJunctionFaultThreshholds_safe:
  "cr0_consistent s \<Longrightarrow> safe_step s (setColdJunctionFaultThreshholds low high s)"
  by (simp add: safe_step_def appends_respecting_def cr0_consistent_iff
      setColdJunctionFaultThreshholds_def writeRegister8_eq emit_def)

lemma setTempFaultThreshholds_safe:
  "cr0_consistent s \<Longrightarrow> safe_step s (setTempFaultThreshholds flow fhigh s)"
  by (simp add: safe_step_def appends_respecting_def cr0_consistent_iff
      setTempFaultThreshholds_def writeRegister8_eq emit_def Let_def)

lemma safe_step_refl: "cr0_consistent s \<Longrightarrow> safe_step s s"
  by (simp add: safe_step_def appends_respecting_refl)

lemma safe_step_consistent: "safe_step s s' \<Longrightarrow> cr0_consistent s'"
  by (simp add: safe_step_def)

lemma wait_conversion_safe:
  "cr0_consistent s \<Longrightarrow> safe_step s (snd (wait_conversion start s))"
proof (induction start s rule: wait_conversion.induct)
  case (1 start s)
  obtain ready s1 where cc: "conversionComplete s = (ready, s1)" by force
  have a: "safe_step s s1"
    using conversionComplete_safe[OF "1.prems"] by (simp add: cc)
  show ?case
  proof (cases "ready \<or> 250 < millis s1 - start")
    case True
    then show ?thesis
      using a by (subst wait_conversion.simps) (auto simp: cc)
  next
    case False
    have b: "safe_step s1 (delay 10 s1)"
      using delay_safe[OF safe_step_consistent[OF a]] .
    have "safe_step (delay 10 s1) (snd (wait_conversion start (delay 10 s1)))"
      using False safe_step_consistent[OF b]
      by (intro "1.IH"[OF cc[symmetric]]) simp_all
    then have "safe_step s (snd (wait_conversion start (delay 10 s1)))"
      using a b safe_step_trans by blast
    then show ?thesis
      using False by (subst wait_conversion.simps) (simp add: cc)
  qed
qed

lemma readThermocoupleTemperature_safe:
  assumes "cr0_consistent s"
  shows "safe_step s (snd (readThermocoupleTemperature s))"
proof -
  define pre where "pre = (if conversionMode s = MAX31856_ONESHOT
            then (let s1 = triggerOneShot s; start = millis s1 in wait_conversion start s1)
            else (True, s))"
  have p: "safe_step s (snd pre)"
  proof (cases "conversionMode s = MAX31856_ONESHOT")
    case True
    have "safe_step (triggerOneShot s) (snd (wait_conversion (millis (triggerOneShot s)) (triggerOneShot s)))"
      using wait_conversion_safe safe_step_consistent[OF triggerOneShot_safe[OF assms]] by blast
    then show ?thesis
      using True triggerOneShot_safe[OF assms] safe_step_trans
      by (simp add: pre_def Let_def)
  next
    case False
    then show ?thesis using safe_step_refl[OF assms] by (simp add: pre_def)
  qed
  obtain ok s2 where pre: "pre = (ok, s2)" by force
  have s2: "safe_step s s2" using p by (simp add: pre)
  have r: "readThermocoupleTemperature s =
      (case pre of
        (False, s2) \<Rightarrow> (NAN, s2)
      | (True, s2) \<Rightarrow>
          (case readRegister24 MAX31856_LTCBH_REG s2 of
             (temp24, s3) \<Rightarrow>
               (let temp24 = (if temp24 AND 0x800000 \<noteq> 0 then temp24 OR 0xFF000000 else temp24);
                    temp24 = signed_drop_bit 5 temp24
                in (Finite (real_of_int (sint temp24) * 0.0078125), s3))))"
    by (simp only: readThermocoupleTemperature_def pre_def)
  show ?thesis
  proof (cases ok)
    case True
    have "snd (readThermocoupleTemperature s) = snd (readRegister24 MAX31856_LTCBH_REG s2)"
      using True by (simp add: r pre Let_def split: prod.splits)
    then show ?thesis
      using readRegister24_safe[OF safe_step_consistent[OF s2], of MAX31856_LTCBH_REG] s2
        safe_step_trans by metis
  next
    case False
    then show ?thesis using s2 by (simp add: r pre)
  qed
qed

lemma begin_max_safe:
  "appends_respecting s (snd (begin_max s))
   \<and> (fst (begin_max s) \<or> cr0_consistent s \<longrightarrow> cr0_consistent (snd (begin_max s)))"
  by (simp add: begin_max_def Let_def setConversionMode_eq setThermocoupleType_eq
      writeRegister8_eq emit_def appends_respecting_def cr0_consistent_iff bw)

lemma exec_safe:
  assumes "cr0_consistent s"
  shows "safe_step s (exec x s)"
proof (cases x)
  case Begin
  then show ?thesis
    using begin_max_safe[of s] assms by (simp add: safe_step_def)
qed (simp_all add: assms setConversionMode_safe setThermocoupleType_safe getThermocoupleType_safe
        readFault_safe triggerOneShot_safe conversionComplete_safe readCJTemperature_safe
        readThermocoupleTemperature_safe setTempFaultThreshholds_safe
        setColdJunctionFaultThreshholds_safe setNoiseFilter_safe delay_safe safe_step_refl)

lemma run_safe: "cr0_consistent s \<Longrightarrow> safe_step s (run xs s)"
proof (induction xs arbitrary: s)
  case Nil
  then show ?case by (simp add: safe_step_refl)
next
  case (Cons x xs)
  have a: "safe_step s (exec x s)" using exec_safe[OF Cons.prems] .
  have "safe_step (exec x s) (run xs (exec x s))"
    using Cons.IH[OF safe_step_consistent[OF a]] .
  then show ?case using a safe_step_trans by auto
qed

text \<open>
  As stated for every sequence of driver operations, C6 does not hold: no operation
  tests \<open>initialized\<close>, and \<open>setNoiseFilter\<close> writes the two mode bits back as it read
  them. On a handle that \<open>begin\<close> has not initialised (stored mode ONESHOT, as in a
  zero-initialised global object) and a chip left with AUTOCONVERT set (the main
  configuration register holds 0x90), \<open>setNoiseFilter\<close> for 50 Hz writes 0x91, AUTOCONVERT
  set, while the stored mode is a one-shot mode. The same happens when \<open>begin\<close> was
  called and failed.
\<close>

theorem mode_flags_uninitialised_counterexample:
  "trace (run [SetNoiseFilter MAX31856_NOISE_FILTER_50HZ] (chip_with [(0x00, 0x90)] None))
     = [(MAX31856_ONESHOT, WriteThenRead [0x00] 1), (MAX31856_ONESHOT, Write [0x80, 0x91])]
   \<and> \<not> mode_respected (MAX31856_ONESHOT, Write [0x80, 0x91])
   \<and> \<not> appends_respecting (chip_with [(0x00, 0x90)] None)
          (run [SetNoiseFilter MAX31856_NOISE_FILTER_50HZ] (chip_with [(0x00, 0x90)] None))
   \<and> \<not> fst (begin_max ((chip_with [(0x00, 0x90)] None)\<lparr>spi_begin_ok := False\<rparr>))
   \<and> \<not> appends_respecting ((chip_with [(0x00, 0x90)] None)\<lparr>spi_begin_ok := False\<rparr>)
          (run [Begin, SetNoiseFilter MAX31856_NOISE_FILTER_50HZ]
             ((chip_with [(0x00, 0x90)] None)\<lparr>spi_begin_ok := False\<rparr>))"
  by (simp add: chip_with_def begin_max_def Let_def setNoiseFilter_eq appends_respecting_def)

text \<open>
  C6 (as amended): in every sequence of driver operations that follows a successful
  \<open>begin\<close> (with the caller waiting any time between them, and the chip clearing the
  ONE\_SHOT bit when a conversion ends), every event of the trace from \<open>begin\<close> on
  respects the stored mode: no write to the main configuration register made while the
  stored mode is CONTINUOUS has the ONE\_SHOT bit set, and none made while the stored
  mode is a one-shot mode has the AUTOCONVERT bit set. The register itself agrees with
  the stored mode at the end.
\<close>

theorem mode_flags_never_violated:
  assumes "fst (begin_max s)"
  shows "appends_respecting s (run xs (snd (begin_max s)))
       \<and> cr0_consistent (run xs (snd (begin_max s)))"
proof -
  have a: "appends_respecting s (snd (begin_max s))" and b: "cr0_consistent (snd (begin_max s))"
    using begin_max_safe[of s] assms by simp_all
  have "safe_step (snd (begin_max s)) (run xs (snd (begin_max s)))"
    using run_safe[OF b] .
  then show ?thesis
    using a appends_respecting_trans by (auto simp: safe_step_def)
qed

theorem mode_flags_never_violated_witness:
  "fst (begin_max (chip_with [(0x00, 0x90)] (Some 20)))
   \<and> appends_respecting (chip_with [(0x00, 0x90)] (Some 20))
        (run [SetNoiseFilter MAX31856_NOISE_FILTER_50HZ, ReadThermocoupleTemperature,
              SetConversionMode MAX31856_CONTINUOUS, SetNoiseFilter MAX31856_NOISE_FILTER_60HZ,
              TriggerOneShot, SetConversionMode MAX31856_ONESHOT_NOWAIT, TriggerOneShot,
              Wait 50, SetNoiseFilter MAX31856_NOISE_FILTER_50HZ]
           (snd (begin_max (chip_with [(0x00, 0x90)] (Some 20)))))
   \<and> cr0_consistent
        (run [SetNoiseFilter MAX31856_NOISE_FILTER_50HZ, ReadThermocoupleTemperature,
              SetConversionMode MAX31856_CONTINUOUS, SetNoiseFilter MAX31856_NOISE_FILTER_60HZ,
              TriggerOneShot, SetConversionMode MAX31856_ONESHOT_NOWAIT, TriggerOneShot,
              Wait 50, SetNoiseFilter MAX31856_NOISE_FILTER_50HZ]
           (snd (begin_max (chip_with [(0x00, 0x90)] (Some 20)))))
   \<and> List.map_filter (\<lambda>(m, e). map_option (Pair m) (cr0_write e))
        (trace
          (run [SetNoiseFilter MAX31856_NOISE_FILTER_50HZ, ReadThermocoupleTemperature,
                SetConversionMode MAX31856_CONTINUOUS, SetNoiseFilter MAX31856_NOISE_FILTER_60HZ,
                TriggerOneShot, SetConversionMode MAX31856_ONESHOT_NOWAIT, TriggerOneShot,
                Wait 50, SetNoiseFilter MAX31856_NOISE_FILTER_50HZ]
             (snd (begin_max (chip_with [(0x00, 0x90)] (Some 20))))))
       = [(MAX31856_ONESHOT, 0x10), (MAX31856_ONESHOT, 0x50), (MAX31856_ONESHOT, 0x51),
          (MAX31856_ONESHOT, 0x51), (MAX31856_CONTINUOUS, 0x91), (MAX31856_CONTINUOUS, 0x90),
          (MAX31856_ONESHOT_NOWAIT, 0x50), (MAX31856_ONESHOT_NOWAIT, 0x50),
          (MAX31856_ONESHOT_NOWAIT, 0x11)]"
proof -
  have h: "fst (begin_max (chip_with [(0x00, 0x90)] (Some 20)))"
    by (simp add: begin_max_def chip_with_def)
  have e: "List.map_filter (\<lambda>(m, e). map_option (Pair m) (cr0_write e))
        (trace
          (run [SetNoiseFilter MAX31856_NOISE_FILTER_50HZ, ReadThermocoupleTemperature,
                SetConversionMode MAX31856_CONTINUOUS, SetNoiseFilter MAX31856_NOISE_FILTER_60HZ,
                TriggerOneShot, SetConversionMode MAX31856_ONESHOT_NOWAIT, TriggerOneShot,
                Wait 50, SetNoiseFilter MAX31856_NOISE_FILTER_50HZ]
             (snd (begin_max (chip_with [(0x00, 0x90)] (Some 20))))))
       = [(MAX31856_ONESHOT, 0x10), (MAX31856_ONESHOT, 0x50), (MAX31856_ONESHOT, 0x51),
          (MAX31856_ONESHOT, 0x51), (MAX31856_CONTINUOUS, 0x91), (MAX31856_CONTINUOUS, 0x90),
          (MAX31856_ONESHOT_NOWAIT, 0x50), (MAX31856_ONESHOT_NOWAIT, 0x50),
          (MAX31856_ONESHOT_NOWAIT, 0x11)]"
    by (simp add: chip_with_def begin_max_def Let_def setConversionMode_eq
        setThermocoupleType_eq writeRegister8_eq emit_def setNoiseFilter_eq triggerOneShot_eq
        delay_eq readThermocoupleTemperature_def wait_conversion.simps conversionComplete_eq
        millis_def readRegister24_eq List.map_filter_def)
  show ?thesis
    using h e mode_flags_never_violated [OF h,
      of "[SetNoiseFilter MAX31856_NOISE_FILTER_50HZ, ReadThermocoupleTemperature,
              SetConversionMode MAX31856_CONTINUOUS, SetNoiseFilter MAX31856_NOISE_FILTER_60HZ,
              TriggerOneShot, SetConversionMode MAX31856_ONESHOT_NOWAIT, TriggerOneShot,
              Wait 50, SetNoiseFilter MAX31856_NOISE_FILTER_50HZ]"]
    by blast
qed

section \<open>Initialisation\<close>

lemma begin_max_trace:
  "map snd (trace (snd (begin_max s))) =
     (if spi_begin_ok s
      then map snd (trace s) @
           [Write [0x82, 0x00], Write [0x80, 0x10], Write [0x89, 0x00],
            WriteThenRead [0x01] 1, Write [0x81, (regs s 0x01 AND 0xF0) OR 0x03],
            WriteThenRead [0x00] 1, Write [0x80, 0x50]]
      else map snd (trace s))"
  by (simp add: begin_max_def Let_def setConversionMode_eq setThermocoupleType_eq
      writeRegister8_eq emit_def)

text \<open>
  C8: \<open>begin\<close> returns false exactly when the bus transport cannot be acquired, and
  then touches nothing but the \<open>initialized\<close> flag. On success its bus transactions are,
  in order: write 0x00 to the fault-mask register, write the open-circuit-fault-detection
  bit to the main configuration register, write 0x00 to the cold-junction offset
  register, set the thermocouple type to K (read the type register, write it back with
  the low nibble 0b0011), set the conversion mode to ONESHOT (read the configuration
  register, write it back with ONE\_SHOT set and AUTOCONVERT clear); the stored mode is
  then ONESHOT.
\<close>

theorem begin_max_spec:
  "fst (begin_max s) = spi_begin_ok s
   \<and> (\<not> spi_begin_ok s \<longrightarrow> snd (begin_max s) = s\<lparr>initialized := False\<rparr>)
   \<and> (spi_begin_ok s \<longrightarrow>
        map snd (trace (snd (begin_max s))) =
          map snd (trace s) @
          [Write [MAX31856_MASK_REG OR 0x80, 0x00],
           Write [MAX31856_CR0_REG OR 0x80, MAX31856_CR0_OCFAULT0],
           Write [MAX31856_CJTO_REG OR 0x80, 0x00],
           WriteThenRead [MAX31856_CR1_REG] 1,
           Write [MAX31856_CR1_REG OR 0x80,
                  (regs s MAX31856_CR1_REG AND 0xF0) OR MAX31856_TCTYPE_K],
           WriteThenRead [MAX31856_CR0_REG] 1,
           Write [MAX31856_CR0_REG OR 0x80, MAX31856_CR0_OCFAULT0 OR MAX31856_CR0_1SHOT]]
        \<and> initialized (snd (begin_max s))
        \<and> conversionMode (snd (begin_max s)) = MAX31856_ONESHOT
        \<and> regs (snd (begin_max s)) MAX31856_MASK_REG = 0x00
        \<and> regs (snd (begin_max s)) MAX31856_CR0_REG = MAX31856_CR0_OCFAULT0 OR MAX31856_CR0_1SHOT
        \<and> regs (snd (begin_max s)) MAX31856_CJTO_REG = 0x00
        \<and> regs (snd (begin_max s)) MAX31856_CR1_REG
            = (regs s MAX31856_CR1_REG AND 0xF0) OR MAX31856_TCTYPE_K)"
proof -
  have 1: "fst (begin_max s) = spi_begin_ok s"
    by (simp add: begin_max_def Let_def)
  have 2: "\<not> spi_begin_ok s \<longrightarrow> snd (begin_max s) = s\<lparr>initialized := False\<rparr>"
    by (simp add: begin_max_def Let_def)
  have 3: "spi_begin_ok s \<Longrightarrow> initialized (snd (begin_max s))
        \<and> conversionMode (snd (begin_max s)) = MAX31856_ONESHOT
        \<and> regs (snd (begin_max s)) MAX31856_MASK_REG = 0x00
        \<and> regs (snd (begin_max s)) MAX31856_CR0_REG = MAX31856_CR0_OCFAULT0 OR MAX31856_CR0_1SHOT
        \<and> regs (snd (begin_max s)) MAX31856_CJTO_REG = 0x00
        \<and> regs (snd (begin_max s)) MAX31856_CR1_REG
            = (regs s MAX31856_CR1_REG AND 0xF0) OR MAX31856_TCTYPE_K"
    by (simp add: begin_max_def Let_def setConversionMode_eq setThermocoupleType_eq
      writeRegister8_eq emit_def)
  show ?thesis
    using 1 2 3 by (simp add: begin_max_trace)
qed

theorem begin_max_spec_witness:
  "spi_begin_ok (chip_with [(0x01, 0xA7), (0x00, 0x90)] None)
   \<and> fst (begin_max (chip_with [(0x01, 0xA7), (0x00, 0x90)] None))
   \<and> map snd (trace (snd (begin_max (chip_with [(0x01, 0xA7), (0x00, 0x90)] None))))
       = [Write [0x82, 0x00], Write [0x80, 0x10], Write [0x89, 0x00],
          WriteThenRead [0x01] 1, Write [0x81, 0xA3],
          WriteThenRead [0x00] 1, Write [0x80, 0x50]]
   \<and> \<not> spi_begin_ok ((chip_with [] None)\<lparr>spi_begin_ok := False\<rparr>)
   \<and> \<not> fst (begin_max ((chip_with [] None)\<lparr>spi_begin_ok := False\<rparr>))
   \<and> trace (snd (begin_max ((chip_with [] None)\<lparr>spi_begin_ok := False\<rparr>))) = []"
  using begin_max_spec [of "chip_with [(0x01, 0xA7), (0x00, 0x90)] None"]
    begin_max_spec [of "(chip_with [] None)\<lparr>spi_begin_ok := False\<rparr>"]
  by (simp add: chip_with_def)

section \<open>Thermocouple fault thresholds\<close>

lemma sint16_of_int:
  assumes "- 32768 \<le> k" "k \<le> 32767"
  shows "sint (word_of_int k :: 16 word) = k"
  using assms by (simp add: sint_sbintrunc' signed_take_bit_int_eq_self)

lemma scast16_of_int:
  assumes "- 32768 \<le> k" "k \<le> 32767"
  shows "(scast (word_of_int k :: 16 word) :: 8 word) = word_of_int k"
  by (simp only: scast_eq sint16_of_int[OF assms])

lemma byte_pair_value:
  fixes k :: int
  assumes "- 32768 \<le> k" "k \<le> 32767"
  shows "256 * sint (word_of_int (k div 256) :: 8 word) + uint (word_of_int k :: 8 word) = k"
proof -
  have "- 128 \<le> k div 256" "k div 256 \<le> 127" using assms by linarith+
  then have "sint (word_of_int (k div 256) :: 8 word) = k div 256"
    by (simp add: sint_sbintrunc' signed_take_bit_int_eq_self)
  moreover have "uint (word_of_int k :: 8 word) = k mod 256"
    by (simp add: uint_word_of_int take_bit_eq_mod)
  ultimately show ?thesis by simp
qed

lemma setTempFaultThreshholds_eq:
  assumes "- 32768 \<le> truncate_toward_zero (flow * 16)" "truncate_toward_zero (flow * 16) \<le> 32767"
      and "- 32768 \<le> truncate_toward_zero (fhigh * 16)" "truncate_toward_zero (fhigh * 16) \<le> 32767"
  shows "setTempFaultThreshholds flow fhigh s =
     s\<lparr>regs := (regs s)
          (0x05 := word_of_int (truncate_toward_zero (fhigh * 16) div 256),
           0x06 := word_of_int (truncate_toward_zero (fhigh * 16)),
           0x07 := word_of_int (truncate_toward_zero (flow * 16) div 256),
           0x08 := word_of_int (truncate_toward_zero (flow * 16))),
       trace := trace s @ map (Pair (conversionMode s))
          [Write [0x85, word_of_int (truncate_toward_zero (fhigh * 16) div 256)],
           Write [0x86, word_of_int (truncate_toward_zero (fhigh * 16))],
           Write [0x87, word_of_int (truncate_toward_zero (flow * 16) div 256)],
           Write [0x88, word_of_int (truncate_toward_zero (flow * 16))]]\<rparr>"
  by (simp add: setTempFaultThreshholds_def float_to_int16_def Let_def writeRegister8_eq emit_def
      sint16_of_int[OF assms(1,2)] sint16_of_int[OF assms(3,4)]
      scast16_of_int[OF assms(1,2)] scast16_of_int[OF assms(3,4)] drop_bit_eq_div)

lemma trunc_26_5: "truncate_toward_zero (26.5 * 16) = 424"
  by (simp add: truncate_toward_zero_def)

lemma trunc_pos: "truncate_toward_zero (26.53125 * 16) = 424"
proof -
  have "\<lfloor>849 / 2 :: real\<rfloor> = 424" by (simp add: floor_eq_iff)
  moreover have "(26.53125 * 16 :: real) = 849 / 2" by simp
  ultimately show ?thesis by (simp add: truncate_toward_zero_def)
qed

lemma trunc_neg: "truncate_toward_zero (- 10.03125 * 16) = - 160"
proof -
  have "\<lceil>- (321 / 2 :: real)\<rceil> = - 160" by (simp add: ceiling_eq_iff)
  moreover have "(- 10.03125 * 16 :: real) = - (321 / 2)" by simp
  ultimately show ?thesis by (simp add: truncate_toward_zero_def)
qed

text \<open>
  C9: \<open>setTempFaultThreshholds\<close> multiplies each Celsius input by 16 and discards the
  fraction, rounding towards zero: the scaled integer is the floor of a non-negative
  product and the ceiling of a negative one. Where the two integers \<open>low\<close> and \<open>high\<close>
  fit a signed 16-bit integer (outside that range the C++ conversion is undefined), it
  writes the high byte and then the low byte of \<open>high\<close> to the high-threshold register
  pair, then the high byte and the low byte of \<open>low\<close> to the low-threshold pair, and
  each register pair then holds its value in two's complement, most significant byte
  first. For the input 26.5 the bytes are 0x01 and then 0xA8.
\<close>

theorem setTempFaultThreshholds_spec:
  assumes "low = (if 0 \<le> flow * 16 then \<lfloor>flow * 16\<rfloor> else \<lceil>flow * 16\<rceil>)"
      and "high = (if 0 \<le> fhigh * 16 then \<lfloor>fhigh * 16\<rfloor> else \<lceil>fhigh * 16\<rceil>)"
      and "- 32768 \<le> low" "low \<le> 32767" "- 32768 \<le> high" "high \<le> 32767"
  shows "map snd (trace (setTempFaultThreshholds flow fhigh s)) =
           map snd (trace s) @
           [Write [MAX31856_LTHFTH_REG OR 0x80, word_of_int (high div 256)],
            Write [MAX31856_LTHFTL_REG OR 0x80, word_of_int high],
            Write [MAX31856_LTLFTH_REG OR 0x80, word_of_int (low div 256)],
            Write [MAX31856_LTLFTL_REG OR 0x80, word_of_int low]]
       \<and> 256 * sint (regs (setTempFaultThreshholds flow fhigh s) MAX31856_LTHFTH_REG)
           + uint (regs (setTempFaultThreshholds flow fhigh s) MAX31856_LTHFTL_REG) = high
       \<and> 256 * sint (regs (setTempFaultThreshholds flow fhigh s) MAX31856_LTLFTH_REG)
           + uint (regs (setTempFaultThreshholds flow fhigh s) MAX31856_LTLFTL_REG) = low
       \<and> map snd (trace (setTempFaultThreshholds 26.5 26.5 s)) =
           map snd (trace s) @
           [Write [MAX31856_LTHFTH_REG OR 0x80, 0x01], Write [MAX31856_LTHFTL_REG OR 0x80, 0xA8],
            Write [MAX31856_LTLFTH_REG OR 0x80, 0x01], Write [MAX31856_LTLFTL_REG OR 0x80, 0xA8]]"
proof -
  have l: "low = truncate_toward_zero (flow * 16)"
    and h: "high = truncate_toward_zero (fhigh * 16)"
    using assms(1,2) by (simp_all only: truncate_toward_zero_def)
  have e: "setTempFaultThreshholds flow fhigh s =
     s\<lparr>regs := (regs s)
          (0x05 := word_of_int (high div 256), 0x06 := word_of_int high,
           0x07 := word_of_int (low div 256), 0x08 := word_of_int low),
       trace := trace s @ map (Pair (conversionMode s))
          [Write [0x85, word_of_int (high div 256)], Write [0x86, word_of_int high],
           Write [0x87, word_of_int (low div 256)], Write [0x88, word_of_int low]]\<rparr>"
    using setTempFaultThreshholds_eq[of flow fhigh s] assms(3-6)
    by (simp only: l[symmetric] h[symmetric])
  have x: "map snd (trace (setTempFaultThreshholds 26.5 26.5 s)) =
           map snd (trace s) @
           [Write [0x85, 0x01], Write [0x86, 0xA8], Write [0x87, 0x01], Write [0x88, 0xA8]]"
    using setTempFaultThreshholds_eq[of "26.5" "26.5" s]
    by (simp add: truncate_toward_zero_def)
  show ?thesis
    using byte_pair_value[OF assms(3,4)] byte_pair_value[OF assms(5,6)] x
    by (simp add: e)
qed

theorem setTempFaultThreshholds_spec_witness:
  "(- 160 :: int) = (if (0 :: real) \<le> - 10.03125 * 16 then \<lfloor>- 10.03125 * 16 :: real\<rfloor>
                     else \<lceil>- 10.03125 * 16 :: real\<rceil>)
   \<and> (424 :: int) = (if (0 :: real) \<le> 26.53125 * 16 then \<lfloor>26.53125 * 16 :: real\<rfloor>
                      else \<lceil>26.53125 * 16 :: real\<rceil>)
   \<and> (- 32768 :: int) \<le> - 160 \<and> (- 160 :: int) \<le> 32767
   \<and> (- 32768 :: int) \<le> 424 \<and> (424 :: int) \<le> 32767
   \<and> map snd (trace (setTempFaultThreshholds (- 10.03125) 26.53125 (chip_with [] None)))
       = [Write [0x85, 0x01], Write [0x86, 0xA8], Write [0x87, 0xFF], Write [0x88, 0x60]]"
proof -
  have l: "(- 160 :: int) = (if (0 :: real) \<le> - 10.03125 * 16 then \<lfloor>- 10.03125 * 16 :: real\<rfloor>
                     else \<lceil>- 10.03125 * 16 :: real\<rceil>)"
    using trunc_neg by (simp only: truncate_toward_zero_def)
  have h: "(424 :: int) = (if (0 :: real) \<le> 26.53125 * 16 then \<lfloor>26.53125 * 16 :: real\<rfloor>
                      else \<lceil>26.53125 * 16 :: real\<rceil>)"
    using trunc_pos by (simp only: truncate_toward_zero_def)
  have r: "(- 32768 :: int) \<le> - 160" "(- 160 :: int) \<le> 32767"
    "(- 32768 :: int) \<le> 424" "(424 :: int) \<le> 32767" by simp_all
  have t: "map snd (trace (setTempFaultThreshholds (- 10.03125) 26.53125 (chip_with [] None)))
       = [Write [0x85, 0x01], Write [0x86, 0xA8], Write [0x87, 0xFF], Write [0x88, 0x60]]"
    using setTempFaultThreshholds_spec [OF l h r, of "chip_with [] None"]
    by (simp add: chip_with_def)
  show ?thesis
    by (intro conjI) (rule l h r t)+
qed

end
